theory Spec2Isabelle
  imports Main
begin

section \<open>Values and objects\<close>

text \<open>
  The helpers are written against untyped data (\<open>any\<close>): states, signals and service
  errors are plain JavaScript values. A plain object is the finite map of its own
  properties; numbers are the integers (identifiers and counters are all the helpers
  ever carry).
\<close>

datatype jsval =
    Undefined
  | Null
  | JBool bool
  | JNum int
  | JStr string
  | JArr "jsval list"
  | JObj "string \<Rightarrow> jsval option"

type_synonym obj = "string \<Rightarrow> jsval option"

text \<open>\<open>o.k\<close> on a plain object: a missing property reads as \<open>undefined\<close>.\<close>

definition field :: "obj \<Rightarrow> string \<Rightarrow> jsval" where
  "field m k = (case m k of None \<Rightarrow> Undefined | Some v \<Rightarrow> v)"

text \<open>JavaScript truthiness, as \<open>!x\<close>, \<open>x || y\<close> and \<open>if (x)\<close> read it.\<close>

fun truthy :: "jsval \<Rightarrow> bool" where
  "truthy Undefined = False"
| "truthy Null = False"
| "truthy (JBool b) = b"
| "truthy (JNum n) = (n \<noteq> 0)"
| "truthy (JStr s) = (s \<noteq> [])"
| "truthy (JArr xs) = True"
| "truthy (JObj m) = True"

text \<open>\<open>a || b\<close>\<close>

definition js_or :: "jsval \<Rightarrow> jsval \<Rightarrow> jsval" where
  "js_or a b = (if truthy a then a else b)"

text \<open>
  The canonical array index a property key denotes, if any (\<open>"0"\<close>, \<open>"1"\<close>, \<open>"10"\<close>,
  never \<open>"01"\<close>): the own keys of an array or a string.
\<close>

definition digit_of :: "char \<Rightarrow> nat option" where
  "digit_of c = map_of (zip ''0123456789'' [0, 1, 2, 3, 4, 5, 6, 7, 8, 9]) c"

fun digits_value :: "nat \<Rightarrow> string \<Rightarrow> nat option" where
  "digits_value acc [] = Some acc"
| "digits_value acc (c # cs) =
     (case digit_of c of None \<Rightarrow> None | Some d \<Rightarrow> digits_value (10 * acc + d) cs)"

definition index_of_key :: "string \<Rightarrow> nat option" where
  "index_of_key k =
     (case k of
        [] \<Rightarrow> None
      | c # cs \<Rightarrow> (if c = CHR ''0'' \<and> cs \<noteq> [] then None else digits_value 0 k))"

definition elements :: "'a list \<Rightarrow> ('a \<Rightarrow> jsval) \<Rightarrow> obj" where
  "elements xs f k =
     (case index_of_key k of
        None \<Rightarrow> None
      | Some i \<Rightarrow> (if i < length xs then Some (f (xs ! i)) else None))"

text \<open>
  Object spread \<open>{...v}\<close>: the own enumerable properties of \<open>v\<close>. Spreading
  \<open>undefined\<close>, \<open>null\<close>, a boolean or a number adds nothing; an array or a string
  spreads its indexed elements.
\<close>

fun spread :: "jsval \<Rightarrow> obj" where
  "spread (JObj m) = m"
| "spread (JArr xs) = elements xs (\<lambda>x. x)"
| "spread (JStr s) = elements s (\<lambda>c. JStr [c])"
| "spread Undefined = Map.empty"
| "spread Null = Map.empty"
| "spread (JBool b) = Map.empty"
| "spread (JNum n) = Map.empty"

text \<open>
  Property access \<open>v.k\<close> on any value: \<open>None\<close> is the TypeError that reading a
  property of \<open>undefined\<close> or \<open>null\<close> throws. Inherited methods are not data and
  are not modelled; \<open>length\<close> of arrays and strings is.
\<close>

fun js_member :: "jsval \<Rightarrow> string \<Rightarrow> jsval option" where
  "js_member Undefined k = None"
| "js_member Null k = None"
| "js_member (JObj m) k = Some (field m k)"
| "js_member (JArr xs) k =
     Some (if k = ''length'' then JNum (int (length xs)) else field (spread (JArr xs)) k)"
| "js_member (JStr s) k =
     Some (if k = ''length'' then JNum (int (length s)) else field (spread (JStr s)) k)"
| "js_member (JBool b) k = Some Undefined"
| "js_member (JNum n) k = Some Undefined"

text \<open>Optional chaining \<open>v?.k\<close>: \<open>undefined\<close> where \<open>v\<close> is \<open>undefined\<close> or \<open>null\<close>.\<close>

definition opt_member :: "jsval \<Rightarrow> string \<Rightarrow> jsval" where
  "opt_member v k = (case js_member v k of None \<Rightarrow> Undefined | Some x \<Rightarrow> x)"

section \<open>Signals and action groups\<close>

text \<open>
  \<open>createAction(type, props())\<close> of the store library yields a creator with a
  \<open>type\<close>; applied to a payload it returns \<open>{...payload, type}\<close>. A creator is
  represented by its type string, and \<open>create\<close> applies it.
\<close>

definition create :: "string \<Rightarrow> obj \<Rightarrow> obj" where
  "create t payload = payload(''type'' \<mapsto> JStr t)"

type_synonym action_group = "string \<Rightarrow> string option"

text \<open>
  The four per-operation factories are the same in the three helper files up to the
  payload types, which are erased at run time.
\<close>

definition createLoadActions :: "string \<Rightarrow> action_group" where
  "createLoadActions feature =
     [''load'' \<mapsto> ''['' @ feature @ ''] Load'',
      ''loadSuccess'' \<mapsto> ''['' @ feature @ ''] Load Success'',
      ''loadFailure'' \<mapsto> ''['' @ feature @ ''] Load Failure'',
      ''reset'' \<mapsto> ''['' @ feature @ ''] Reset'']"

definition createAddActions :: "string \<Rightarrow> action_group" where
  "createAddActions feature =
     [''add'' \<mapsto> ''['' @ feature @ ''] Add'',
      ''addSuccess'' \<mapsto> ''['' @ feature @ ''] Add Success'',
      ''addFailure'' \<mapsto> ''['' @ feature @ ''] Add Failure'',
      ''reset'' \<mapsto> ''['' @ feature @ ''] Reset'']"

definition createUpdateActions :: "string \<Rightarrow> action_group" where
  "createUpdateActions feature =
     [''update'' \<mapsto> ''['' @ feature @ ''] Update'',
      ''updateSuccess'' \<mapsto> ''['' @ feature @ ''] Update Success'',
      ''updateFailure'' \<mapsto> ''['' @ feature @ ''] Update Failure'',
      ''reset'' \<mapsto> ''['' @ feature @ ''] Reset'']"

definition createDeleteActions :: "string \<Rightarrow> action_group" where
  "createDeleteActions feature =
     [''delete'' \<mapsto> ''['' @ feature @ ''] Delete'',
      ''deleteSuccess'' \<mapsto> ''['' @ feature @ ''] Delete Success'',
      ''deleteFailure'' \<mapsto> ''['' @ feature @ ''] Delete Failure'',
      ''reset'' \<mapsto> ''['' @ feature @ ''] Reset'']"

text \<open>\<open>createCrudActions\<close> (ngrx_generic_state_4.ts): the four groups spread into one.\<close>

definition createCrudActions :: "string \<Rightarrow> action_group" where
  "createCrudActions feature =
     createLoadActions feature ++ createAddActions feature
       ++ createUpdateActions feature ++ createDeleteActions feature"

text \<open>
  \<open>createGenericActions\<close> (the single-resource variant): the operations are switched
  on by flags, load by default; \<open>reset\<close> is always there.
\<close>

record GenericActionConfig =
  feature :: string
  enableLoad :: "bool option"
  enableAdd :: "bool option"
  enableUpdate :: "bool option"
  enableDelete :: "bool option"

definition flag :: "bool option \<Rightarrow> bool \<Rightarrow> bool" where
  "flag v dflt = (case v of None \<Rightarrow> dflt | Some b \<Rightarrow> b)"

definition createGenericActions :: "GenericActionConfig \<Rightarrow> action_group" where
  "createGenericActions config =
     (let f = feature config;
          a0 = Map.empty;
          a1 = (if flag (enableLoad config) True
                then a0(''load'' \<mapsto> ''['' @ f @ ''] Load'',
                        ''loadSuccess'' \<mapsto> ''['' @ f @ ''] Load Success'',
                        ''loadFailure'' \<mapsto> ''['' @ f @ ''] Load Failure'')
                else a0);
          a2 = (if flag (enableAdd config) False
                then a1(''add'' \<mapsto> ''['' @ f @ ''] Add'',
                        ''addSuccess'' \<mapsto> ''['' @ f @ ''] Add Success'',
                        ''addFailure'' \<mapsto> ''['' @ f @ ''] Add Failure'')
                else a1);
          a3 = (if flag (enableUpdate config) False
                then a2(''update'' \<mapsto> ''['' @ f @ ''] Update'',
                        ''updateSuccess'' \<mapsto> ''['' @ f @ ''] Update Success'',
                        ''updateFailure'' \<mapsto> ''['' @ f @ ''] Update Failure'')
                else a2);
          a4 = (if flag (enableDelete config) False
                then a3(''delete'' \<mapsto> ''['' @ f @ ''] Delete'',
                        ''deleteSuccess'' \<mapsto> ''['' @ f @ ''] Delete Success'',
                        ''deleteFailure'' \<mapsto> ''['' @ f @ ''] Delete Failure'')
                else a3)
      in a4(''reset'' \<mapsto> ''['' @ f @ ''] Reset''))"

text \<open>
  The type names of a group are pairwise distinct when distinct keys never carry the
  same type.
\<close>

definition distinct_types :: "action_group \<Rightarrow> bool" where
  "distinct_types g = inj_on g (dom g)"

section \<open>Reducers\<close>

text \<open>
  A state is a plain object; a reducer maps the state and a signal to the next state.
  \<open>on(creator, reducer)\<close> of the store library pairs the creator's type with the
  reducer; it reads \<open>creator.type\<close>, which throws for a creator the group lacks
  (\<open>None\<close>).
\<close>

type_synonym reducer_fn = "obj \<Rightarrow> obj \<Rightarrow> obj"

type_synonym handler = "string \<times> reducer_fn"

definition on :: "string option \<Rightarrow> reducer_fn \<Rightarrow> handler option" where
  "on creator r = (case creator of None \<Rightarrow> None | Some t \<Rightarrow> Some (t, r))"

text \<open>
  \<open>createReducer(initialState, ...ons)\<close> of the store library: a table from type to
  reducer, a later handler for a type already in the table running after the earlier
  one; the reducer it returns defaults an undefined state to the initial state and
  returns the state as it is when the table has no entry for the signal's type.
\<close>

fun register :: "handler \<Rightarrow> (string \<Rightarrow> reducer_fn option) \<Rightarrow> (string \<Rightarrow> reducer_fn option)" where
  "register (t, r) m =
     (case m t of
        None \<Rightarrow> m(t \<mapsto> r)
      | Some existing \<Rightarrow> m(t \<mapsto> (\<lambda>state action. r (existing state action) action)))"

type_synonym action_reducer = "obj option \<Rightarrow> obj \<Rightarrow> obj"

definition createReducer :: "obj \<Rightarrow> handler list \<Rightarrow> action_reducer" where
  "createReducer initialState ons st action =
     (let m = fold register ons Map.empty;
          state = (case st of None \<Rightarrow> initialState | Some s \<Rightarrow> s)
      in case action ''type'' of
           Some (JStr t) \<Rightarrow> (case m t of None \<Rightarrow> state | Some reducer \<Rightarrow> reducer state action)
         | _ \<Rightarrow> state)"

text \<open>
  \<open>createImmerReducer\<close>: the reducer of \<open>createReducer\<close> run inside \<open>produce\<close>. No
  handler of these helpers writes to the draft, so \<open>produce\<close> hands back what the
  recipe returns: the handler's new object, or the base state itself when the recipe
  returns the untouched draft.
\<close>

definition createImmerReducer :: "obj \<Rightarrow> handler list \<Rightarrow> action_reducer" where
  "createImmerReducer initialState onList st action =
     (let reducer = createReducer initialState onList;
          state = (case st of None \<Rightarrow> initialState | Some s \<Rightarrow> s)
      in reducer (Some state) action)"

text \<open>
  One guarded block of a handler factory,
  \<open>if (actions.guard) { handlers.push(on(actions.k1, r1), on(actions.k2, r2), ...) }\<close>,
  and the blocks of a factory in sequence: a throw in any \<open>on\<close> aborts the factory.
\<close>

definition push_if :: "action_group \<Rightarrow> string \<Rightarrow> (string \<times> reducer_fn) list \<Rightarrow> handler list option" where
  "push_if actions guard entries =
     (if actions guard = None then Some []
      else those (map (\<lambda>(k, r). on (actions k) r) entries))"

definition blocks :: "handler list option list \<Rightarrow> handler list option" where
  "blocks bs = map_option concat (those bs)"

subsection \<open>ngrx_helper_enhanced.ts: createDefaultState, createDefaultReducerHandlers\<close>

text \<open>\<open>createDefaultState(data = null)\<close>: an omitted or undefined argument is \<open>null\<close>.\<close>

definition createDefaultState :: "jsval \<Rightarrow> obj" where
  "createDefaultState data =
     [''data'' \<mapsto> (if data = Undefined then Null else data),
      ''error'' \<mapsto> Null,
      ''isLoading'' \<mapsto> JBool False,
      ''isAdding'' \<mapsto> JBool False,
      ''isUpdating'' \<mapsto> JBool False,
      ''isDeleting'' \<mapsto> JBool False]"

record GenericReducerConfig =
  actions :: action_group
  onAddSuccess :: "(obj \<Rightarrow> jsval \<Rightarrow> obj) option"
  onDeleteSuccess :: "(obj \<Rightarrow> jsval \<Rightarrow> obj) option"
  onUpdateSuccess :: "(obj \<Rightarrow> jsval \<Rightarrow> obj) option"
  stateKey :: string

text \<open>\<open>...(callback ? callback(state, x) : {})\<close>\<close>

definition patch :: "(obj \<Rightarrow> jsval \<Rightarrow> obj) option \<Rightarrow> obj \<Rightarrow> jsval \<Rightarrow> obj" where
  "patch callback state x = (case callback of None \<Rightarrow> Map.empty | Some f \<Rightarrow> f state x)"

definition createDefaultReducerHandlers :: "GenericReducerConfig \<Rightarrow> handler list option" where
  "createDefaultReducerHandlers config =
     (let acts = actions config; key = stateKey config in
      blocks [
        push_if acts ''load'' [
          (''load'', \<lambda>state action.
             state(key \<mapsto> JObj ((spread (field state key))
               (''isLoading'' \<mapsto> JBool True, ''error'' \<mapsto> Null)))),
          (''loadSuccess'', \<lambda>state action.
             state(key \<mapsto> JObj ((spread (field state key))
               (''data'' \<mapsto> field action ''data'', ''isLoading'' \<mapsto> JBool False,
                ''error'' \<mapsto> Null)))),
          (''loadFailure'', \<lambda>state action.
             state(key \<mapsto> JObj ((spread (field state key))
               (''isLoading'' \<mapsto> JBool False, ''error'' \<mapsto> field action ''error''))))],
        push_if acts ''add'' [
          (''add'', \<lambda>state action.
             state(key \<mapsto> JObj ((spread (field state key))
               (''isAdding'' \<mapsto> JBool True, ''error'' \<mapsto> Null)))),
          (''addSuccess'', \<lambda>state action.
             state(key \<mapsto> JObj ((spread (field state key))
               (''isAdding'' \<mapsto> JBool False, ''error'' \<mapsto> Null)))
               ++ patch (onAddSuccess config) state (field action ''item'')),
          (''addFailure'', \<lambda>state action.
             state(key \<mapsto> JObj ((spread (field state key))
               (''isAdding'' \<mapsto> JBool False, ''error'' \<mapsto> field action ''error''))))],
        push_if acts ''update'' [
          (''update'', \<lambda>state action.
             state(key \<mapsto> JObj ((spread (field state key))
               (''isUpdating'' \<mapsto> JBool True, ''error'' \<mapsto> Null)))),
          (''updateSuccess'', \<lambda>state action.
             state(key \<mapsto> JObj ((spread (field state key))
               (''isUpdating'' \<mapsto> JBool False, ''error'' \<mapsto> Null)))
               ++ patch (onUpdateSuccess config) state (field action ''item'')),
          (''updateFailure'', \<lambda>state action.
             state(key \<mapsto> JObj ((spread (field state key))
               (''isUpdating'' \<mapsto> JBool False, ''error'' \<mapsto> field action ''error''))))],
        push_if acts ''delete'' [
          (''delete'', \<lambda>state action.
             state(key \<mapsto> JObj ((spread (field state key))
               (''isDeleting'' \<mapsto> JBool True, ''error'' \<mapsto> Null)))),
          (''deleteSuccess'', \<lambda>state action.
             state(key \<mapsto> JObj ((spread (field state key))
               (''isDeleting'' \<mapsto> JBool False, ''error'' \<mapsto> Null)))
               ++ patch (onDeleteSuccess config) state (field action ''id'')),
          (''deleteFailure'', \<lambda>state action.
             state(key \<mapsto> JObj ((spread (field state key))
               (''isDeleting'' \<mapsto> JBool False, ''error'' \<mapsto> field action ''error''))))],
        push_if acts ''reset'' [
          (''reset'', \<lambda>state action.
             state(key \<mapsto> JObj (createDefaultState Undefined)))]])"

subsection \<open>ngrx_generic_state_4.ts: createGenericReducer over a sub-slice\<close>

text \<open>
  Every operation kind shares the one busy flag \<open>isLoading\<close>; \<open>loadSuccess\<close>
  writes a fresh three-field sub-slice; \<open>reset\<close> returns the configured initial
  state; \<open>additionalActions\<close> (default \<open>[]\<close>) are registered last.
\<close>

record GenericReducerConfig4 =
  actions4 :: action_group
  initialState4 :: obj
  stateKey4 :: string
  additionalActions4 :: "(string \<times> reducer_fn) list option"
  onAddSuccess4 :: "(obj \<Rightarrow> jsval \<Rightarrow> obj) option"
  onUpdateSuccess4 :: "(obj \<Rightarrow> jsval \<Rightarrow> obj) option"
  onDeleteSuccess4 :: "(obj \<Rightarrow> jsval \<Rightarrow> obj) option"

definition genericHandlers4 :: "GenericReducerConfig4 \<Rightarrow> handler list option" where
  "genericHandlers4 config =
     (let acts = actions4 config; key = stateKey4 config;
          additionalActions = (case additionalActions4 config of None \<Rightarrow> [] | Some l \<Rightarrow> l) in
      blocks [
        push_if acts ''load'' [
          (''load'', \<lambda>state action.
             state(key \<mapsto> JObj ((spread (field state key))
               (''isLoading'' \<mapsto> JBool True, ''error'' \<mapsto> Null)))),
          (''loadSuccess'', \<lambda>state action.
             state(key \<mapsto> JObj
               [''data'' \<mapsto> field action ''data'', ''isLoading'' \<mapsto> JBool False,
                ''error'' \<mapsto> Null])),
          (''loadFailure'', \<lambda>state action.
             state(key \<mapsto> JObj ((spread (field state key))
               (''isLoading'' \<mapsto> JBool False, ''error'' \<mapsto> field action ''error''))))],
        push_if acts ''add'' [
          (''add'', \<lambda>state action.
             state(key \<mapsto> JObj ((spread (field state key))
               (''isLoading'' \<mapsto> JBool True, ''error'' \<mapsto> Null)))),
          (''addSuccess'', \<lambda>state action.
             state(key \<mapsto> JObj ((spread (field state key))
               (''isLoading'' \<mapsto> JBool False, ''error'' \<mapsto> Null)))
               ++ patch (onAddSuccess4 config) state (field action ''item'')),
          (''addFailure'', \<lambda>state action.
             state(key \<mapsto> JObj ((spread (field state key))
               (''isLoading'' \<mapsto> JBool False, ''error'' \<mapsto> field action ''error''))))],
        push_if acts ''update'' [
          (''update'', \<lambda>state action.
             state(key \<mapsto> JObj ((spread (field state key))
               (''isLoading'' \<mapsto> JBool True, ''error'' \<mapsto> Null)))),
          (''updateSuccess'', \<lambda>state action.
             state(key \<mapsto> JObj ((spread (field state key))
               (''isLoading'' \<mapsto> JBool False, ''error'' \<mapsto> Null)))
               ++ patch (onUpdateSuccess4 config) state (field action ''item'')),
          (''updateFailure'', \<lambda>state action.
             state(key \<mapsto> JObj ((spread (field state key))
               (''isLoading'' \<mapsto> JBool False, ''error'' \<mapsto> field action ''error''))))],
        push_if acts ''delete'' [
          (''delete'', \<lambda>state action.
             state(key \<mapsto> JObj ((spread (field state key))
               (''isLoading'' \<mapsto> JBool True, ''error'' \<mapsto> Null)))),
          (''deleteSuccess'', \<lambda>state action.
             state(key \<mapsto> JObj ((spread (field state key))
               (''isLoading'' \<mapsto> JBool False, ''error'' \<mapsto> Null)))
               ++ patch (onDeleteSuccess4 config) state (field action ''id'')),
          (''deleteFailure'', \<lambda>state action.
             state(key \<mapsto> JObj ((spread (field state key))
               (''isLoading'' \<mapsto> JBool False, ''error'' \<mapsto> field action ''error''))))],
        push_if acts ''reset'' [
          (''reset'', \<lambda>state action. initialState4 config)],
        Some additionalActions])"

definition createGenericReducer4 :: "GenericReducerConfig4 \<Rightarrow> action_reducer option" where
  "createGenericReducer4 config =
     map_option (createReducer (initialState4 config)) (genericHandlers4 config)"

subsection \<open>The single-resource createGenericReducer\<close>

text \<open>
  The variant over a flat \<open>GenericState\<close> (\<open>data\<close>, \<open>isLoading\<close>, \<open>error\<close>): the
  handlers write the state's own fields, and an optional \<open>additionalReducers\<close> wraps
  the finished reducer.
\<close>

record GenericReducerConfigFlat =
  actionsF :: action_group
  initialStateF :: obj
  additionalReducersF :: "(action_reducer \<Rightarrow> action_reducer) option"
  onAddSuccessF :: "(obj \<Rightarrow> jsval \<Rightarrow> obj) option"
  onUpdateSuccessF :: "(obj \<Rightarrow> jsval \<Rightarrow> obj) option"
  onDeleteSuccessF :: "(obj \<Rightarrow> jsval \<Rightarrow> obj) option"

definition genericHandlersFlat :: "GenericReducerConfigFlat \<Rightarrow> handler list option" where
  "genericHandlersFlat config =
     (let acts = actionsF config in
      blocks [
        push_if acts ''load'' [
          (''load'', \<lambda>state action.
             state(''isLoading'' \<mapsto> JBool True, ''error'' \<mapsto> Null)),
          (''loadSuccess'', \<lambda>state action.
             state(''data'' \<mapsto> field action ''data'', ''isLoading'' \<mapsto> JBool False,
                   ''error'' \<mapsto> Null)),
          (''loadFailure'', \<lambda>state action.
             state(''isLoading'' \<mapsto> JBool False, ''error'' \<mapsto> field action ''error''))],
        push_if acts ''add'' [
          (''add'', \<lambda>state action.
             state(''isLoading'' \<mapsto> JBool True, ''error'' \<mapsto> Null)),
          (''addSuccess'', \<lambda>state action.
             state(''isLoading'' \<mapsto> JBool False, ''error'' \<mapsto> Null)
               ++ patch (onAddSuccessF config) state (field action ''item'')),
          (''addFailure'', \<lambda>state action.
             state(''isLoading'' \<mapsto> JBool False, ''error'' \<mapsto> field action ''error''))],
        push_if acts ''update'' [
          (''update'', \<lambda>state action.
             state(''isLoading'' \<mapsto> JBool True, ''error'' \<mapsto> Null)),
          (''updateSuccess'', \<lambda>state action.
             state(''isLoading'' \<mapsto> JBool False, ''error'' \<mapsto> Null)
               ++ patch (onUpdateSuccessF config) state (field action ''item'')),
          (''updateFailure'', \<lambda>state action.
             state(''isLoading'' \<mapsto> JBool False, ''error'' \<mapsto> field action ''error''))],
        push_if acts ''delete'' [
          (''delete'', \<lambda>state action.
             state(''isLoading'' \<mapsto> JBool True, ''error'' \<mapsto> Null)),
          (''deleteSuccess'', \<lambda>state action.
             state(''isLoading'' \<mapsto> JBool False, ''error'' \<mapsto> Null)
               ++ patch (onDeleteSuccessF config) state (field action ''id'')),
          (''deleteFailure'', \<lambda>state action.
             state(''isLoading'' \<mapsto> JBool False, ''error'' \<mapsto> field action ''error''))],
        push_if acts ''reset'' [
          (''reset'', \<lambda>state action. initialStateF config)]])"

definition createGenericReducerFlat :: "GenericReducerConfigFlat \<Rightarrow> action_reducer option" where
  "createGenericReducerFlat config =
     (case genericHandlersFlat config of
        None \<Rightarrow> None
      | Some handlers \<Rightarrow>
          (let reducer = createReducer (initialStateF config) handlers
           in Some (case additionalReducersF config of
                      None \<Rightarrow> reducer
                    | Some additionalReducers \<Rightarrow> additionalReducers reducer)))"

section \<open>Effect pipelines\<close>

text \<open>
  An effect is \<open>actions$.pipe(ofType(creator), [withLatestFrom(store.select(selector)),]
  switchMap | exhaustMap (project))\<close>, where \<open>project\<close> either returns \<open>EMPTY\<close> or
  calls the injected service and pipes its Observable through \<open>map\<close> and
  \<open>catchError\<close>. Everything runs on one thread, so a run is the sequence of what
  happens to the pipeline: a signal is dispatched, the store emits a state, or the
  Observable returned by the \<open>k\<close>-th service call delivers a notification. The
  injected service is the environment of the pipeline: the model records every call
  with its arguments, and the service is taken at its signature (it returns an
  Observable; what it delivers, and when, is up to the run).
\<close>

datatype notification = OnNext jsval | OnError jsval | OnComplete

datatype event = Dispatch obj | StoreState obj | Notify nat notification

datatype policy = SwitchMap | ExhaustMap

text \<open>
  The inner Observable \<open>service(args).pipe(map(f), catchError(h))\<close>: the arguments of
  the call, what \<open>map\<close> makes of a value (the signal, and what it writes to the
  console), and what the \<open>catchError\<close> selector makes of an error (\<open>None\<close> when the
  selector itself throws; otherwise the signal of \<open>of(signal)\<close>).
\<close>

record inner_observable =
  args :: "jsval list"
  onValue :: "jsval \<Rightarrow> obj \<times> jsval list"
  onFail :: "jsval \<Rightarrow> obj option"

record effect =
  trigger :: string
  concurrency :: policy
  withLatest :: "(obj \<Rightarrow> jsval) option"
  project :: "obj \<Rightarrow> jsval \<Rightarrow> inner_observable option"

record pipeline =
  latest :: "jsval option"
  calls :: "jsval list list"
  inner :: "(nat \<times> inner_observable) option"
  emitted :: "obj list"
  console :: "jsval list"
  failed :: bool

definition subscribed :: pipeline where
  "subscribed = \<lparr>latest = None, calls = [], inner = None, emitted = [], console = [],
                 failed = False\<rparr>"

text \<open>
  \<open>switchMap\<close> unsubscribes from the live inner Observable and subscribes to the one
  \<open>project\<close> returns (\<open>EMPTY\<close> completes at once); \<open>exhaustMap\<close> ignores the outer
  value while an inner Observable is live.
\<close>

definition start :: "effect \<Rightarrow> pipeline \<Rightarrow> obj \<Rightarrow> jsval \<Rightarrow> pipeline" where
  "start eff st action v =
     (case project eff action v of
        None \<Rightarrow> st\<lparr>inner := None\<rparr>
      | Some ob \<Rightarrow> st\<lparr>calls := calls st @ [args ob], inner := Some (length (calls st), ob)\<rparr>)"

definition flatten :: "effect \<Rightarrow> pipeline \<Rightarrow> obj \<Rightarrow> jsval \<Rightarrow> pipeline" where
  "flatten eff st action v =
     (case concurrency eff of
        SwitchMap \<Rightarrow> start eff st action v
      | ExhaustMap \<Rightarrow> (if inner st = None then start eff st action v else st))"

text \<open>
  \<open>ofType\<close> lets a signal through when its type is the creator's; \<open>withLatestFrom\<close>
  pairs it with the latest selected state and drops it while the store has not emitted.
\<close>

definition dispatch :: "effect \<Rightarrow> pipeline \<Rightarrow> obj \<Rightarrow> pipeline" where
  "dispatch eff st action =
     (if action ''type'' = Some (JStr (trigger eff))
      then (case withLatest eff of
              None \<Rightarrow> flatten eff st action Undefined
            | Some selector \<Rightarrow>
                (case latest st of
                   None \<Rightarrow> st
                 | Some v \<Rightarrow> flatten eff st action v))
      else st)"

text \<open>
  A notification of the \<open>k\<close>-th call reaches the pipeline only while that call's
  Observable is the live one: a value is mapped and emitted; an error goes through the
  \<open>catchError\<close> selector, whose signal is emitted before the inner Observable
  completes, and an error thrown by the selector errors the whole pipeline.
\<close>

definition notify :: "pipeline \<Rightarrow> nat \<Rightarrow> notification \<Rightarrow> pipeline" where
  "notify st k n =
     (case inner st of
        None \<Rightarrow> st
      | Some (j, ob) \<Rightarrow>
          (if j = k
           then (case n of
                   OnNext v \<Rightarrow>
                     st\<lparr>emitted := emitted st @ [fst (onValue ob v)],
                        console := console st @ snd (onValue ob v)\<rparr>
                 | OnError e \<Rightarrow>
                     (case onFail ob e of
                        None \<Rightarrow> st\<lparr>inner := None, failed := True\<rparr>
                      | Some signal \<Rightarrow> st\<lparr>inner := None, emitted := emitted st @ [signal]\<rparr>)
                 | OnComplete \<Rightarrow> st\<lparr>inner := None\<rparr>)
           else st))"

definition step :: "effect \<Rightarrow> pipeline \<Rightarrow> event \<Rightarrow> pipeline" where
  "step eff st ev =
     (if failed st then st
      else (case ev of
              Dispatch action \<Rightarrow> dispatch eff st action
            | StoreState s \<Rightarrow>
                (case withLatest eff of
                   None \<Rightarrow> st
                 | Some selector \<Rightarrow> st\<lparr>latest := Some (selector s)\<rparr>)
            | Notify k n \<Rightarrow> notify st k n))"

definition run :: "effect \<Rightarrow> pipeline \<Rightarrow> event list \<Rightarrow> pipeline" where
  "run eff st evs = foldl (step eff) st evs"

text \<open>
  The creators an effect reads, as the interfaces of ngrx_helper_improved.ts declare
  them (without \<open>reset\<close>, which no effect reads).
\<close>

record LoadActionsGroup =
  load :: string
  loadSuccess :: string
  loadFailure :: string

record AddActionsGroup =
  add :: string
  addSuccess :: string
  addFailure :: string

record UpdateActionsGroup =
  update :: string
  updateSuccess :: string
  updateFailure :: string

record DeleteActionsGroup =
  delete :: string
  deleteSuccess :: string
  deleteFailure :: string

text \<open>\<open>error.message || dflt\<close> inside a \<open>catchError\<close> selector, wrapped by \<open>wrap\<close>.\<close>

definition message_or :: "jsval \<Rightarrow> string \<Rightarrow> (jsval \<Rightarrow> obj) \<Rightarrow> obj option" where
  "message_or error dflt wrap =
     (case js_member error ''message'' of
        None \<Rightarrow> None
      | Some m \<Rightarrow> Some (wrap (js_or m (JStr dflt))))"

subsection \<open>ngrx_helper_enhanced.ts\<close>

record EffectMessageConfig =
  successMessage :: "string option"
  failureMessage :: "string option"

text \<open>\<open>messageConfig?.successMessage || dflt\<close>\<close>

definition configured :: "EffectMessageConfig option \<Rightarrow> (EffectMessageConfig \<Rightarrow> string option) \<Rightarrow> string \<Rightarrow> string" where
  "configured messageConfig sel dflt =
     (case messageConfig of
        None \<Rightarrow> dflt
      | Some c \<Rightarrow> (case sel c of None \<Rightarrow> dflt | Some s \<Rightarrow> (if s = [] then dflt else s)))"

text \<open>
  \<open>createLoadEffect\<close>: without a store or a selector the service is called on every
  load; with both, a load is skipped when the selected state's \<open>data\<close> is not
  \<open>null\<close> and \<open>forceReload\<close> is not truthy.
\<close>

definition createLoadEffect ::
  "LoadActionsGroup \<Rightarrow> bool \<Rightarrow> (obj \<Rightarrow> jsval) option \<Rightarrow> EffectMessageConfig option \<Rightarrow> effect" where
  "createLoadEffect acts store selector messageConfig =
     (let defaultSuccessMessage = configured messageConfig successMessage ''Data loaded successfully'';
          defaultFailureMessage = configured messageConfig failureMessage ''Load failed'';
          request = (\<lambda>action.
            \<lparr>args = [field action ''params''],
             onValue = (\<lambda>data.
               (create (loadSuccess acts)
                  [''data'' \<mapsto> data, ''message'' \<mapsto> JStr defaultSuccessMessage], [])),
             onFail = (\<lambda>error. message_or error defaultFailureMessage
               (\<lambda>m. create (loadFailure acts) [''error'' \<mapsto> m]))\<rparr>)
      in if \<not> store \<or> selector = None
         then \<lparr>trigger = load acts, concurrency = SwitchMap, withLatest = None,
               project = (\<lambda>action state. Some (request action))\<rparr>
         else \<lparr>trigger = load acts, concurrency = SwitchMap, withLatest = selector,
               project = (\<lambda>action state.
                 if opt_member state ''data'' \<noteq> Null \<and> \<not> truthy (field action ''forceReload'')
                 then None
                 else Some (request action))\<rparr>)"

definition createAddEffect :: "AddActionsGroup \<Rightarrow> EffectMessageConfig option \<Rightarrow> effect" where
  "createAddEffect acts messageConfig =
     (let defaultSuccessMessage = configured messageConfig successMessage ''Item added successfully'';
          defaultFailureMessage = configured messageConfig failureMessage ''Add failed''
      in \<lparr>trigger = add acts, concurrency = ExhaustMap, withLatest = None,
          project = (\<lambda>action state. Some
            \<lparr>args = [field action ''payload''],
             onValue = (\<lambda>item.
               (create (addSuccess acts)
                  [''item'' \<mapsto> item, ''message'' \<mapsto> JStr defaultSuccessMessage], [])),
             onFail = (\<lambda>error. message_or error defaultFailureMessage
               (\<lambda>m. create (addFailure acts) [''error'' \<mapsto> m]))\<rparr>)\<rparr>)"

definition createUpdateEffect :: "UpdateActionsGroup \<Rightarrow> EffectMessageConfig option \<Rightarrow> effect" where
  "createUpdateEffect acts messageConfig =
     (let defaultSuccessMessage = configured messageConfig successMessage ''Item updated successfully'';
          defaultFailureMessage = configured messageConfig failureMessage ''Update failed''
      in \<lparr>trigger = update acts, concurrency = ExhaustMap, withLatest = None,
          project = (\<lambda>action state. Some
            \<lparr>args = [field action ''id'', field action ''payload''],
             onValue = (\<lambda>item.
               (create (updateSuccess acts)
                  [''item'' \<mapsto> item, ''message'' \<mapsto> JStr defaultSuccessMessage], [])),
             onFail = (\<lambda>error. message_or error defaultFailureMessage
               (\<lambda>m. create (updateFailure acts) [''error'' \<mapsto> m]))\<rparr>)\<rparr>)"

definition createDeleteEffect :: "DeleteActionsGroup \<Rightarrow> EffectMessageConfig option \<Rightarrow> effect" where
  "createDeleteEffect acts messageConfig =
     (let defaultSuccessMessage = configured messageConfig successMessage ''Item deleted successfully'';
          defaultFailureMessage = configured messageConfig failureMessage ''Delete failed''
      in \<lparr>trigger = delete acts, concurrency = ExhaustMap, withLatest = None,
          project = (\<lambda>action state. Some
            \<lparr>args = [field action ''id''],
             onValue = (\<lambda>x.
               (create (deleteSuccess acts)
                  [''id'' \<mapsto> field action ''id'', ''message'' \<mapsto> JStr defaultSuccessMessage], [])),
             onFail = (\<lambda>error. message_or error defaultFailureMessage
               (\<lambda>m. create (deleteFailure acts) [''error'' \<mapsto> m]))\<rparr>)\<rparr>)"

subsection \<open>ngrx_generic_state_4.ts\<close>

definition createLoadEffect4 :: "LoadActionsGroup \<Rightarrow> effect" where
  "createLoadEffect4 acts =
     \<lparr>trigger = load acts, concurrency = SwitchMap, withLatest = None,
      project = (\<lambda>action state. Some
        \<lparr>args = [field action ''params''],
         onValue = (\<lambda>data. (create (loadSuccess acts) [''data'' \<mapsto> data], [])),
         onFail = (\<lambda>error. message_or error ''Load failed''
           (\<lambda>m. create (loadFailure acts) [''error'' \<mapsto> m]))\<rparr>)\<rparr>"

definition createAddEffect4 :: "AddActionsGroup \<Rightarrow> effect" where
  "createAddEffect4 acts =
     \<lparr>trigger = add acts, concurrency = ExhaustMap, withLatest = None,
      project = (\<lambda>action state. Some
        \<lparr>args = [field action ''payload''],
         onValue = (\<lambda>item. (create (addSuccess acts) [''item'' \<mapsto> item], [])),
         onFail = (\<lambda>error. message_or error ''Add failed''
           (\<lambda>m. create (addFailure acts) [''error'' \<mapsto> m]))\<rparr>)\<rparr>"

definition createUpdateEffect4 :: "UpdateActionsGroup \<Rightarrow> effect" where
  "createUpdateEffect4 acts =
     \<lparr>trigger = update acts, concurrency = ExhaustMap, withLatest = None,
      project = (\<lambda>action state. Some
        \<lparr>args = [field action ''id'', field action ''payload''],
         onValue = (\<lambda>item. (create (updateSuccess acts) [''item'' \<mapsto> item], [])),
         onFail = (\<lambda>error. message_or error ''Update failed''
           (\<lambda>m. create (updateFailure acts) [''error'' \<mapsto> m]))\<rparr>)\<rparr>"

definition createDeleteEffect4 :: "DeleteActionsGroup \<Rightarrow> effect" where
  "createDeleteEffect4 acts =
     \<lparr>trigger = delete acts, concurrency = ExhaustMap, withLatest = None,
      project = (\<lambda>action state. Some
        \<lparr>args = [field action ''id''],
         onValue = (\<lambda>x. (create (deleteSuccess acts) [''id'' \<mapsto> field action ''id''], [])),
         onFail = (\<lambda>error. message_or error ''Delete failed''
           (\<lambda>m. create (deleteFailure acts) [''error'' \<mapsto> m]))\<rparr>)\<rparr>"

subsection \<open>ngrx_helper_improved.ts\<close>

text \<open>A configured message: a string, or a function of the result or the error.\<close>

datatype message = Static string | Dynamic "jsval \<Rightarrow> string"

record EffectConfig =
  successMessageI :: "message option"
  errorMessage :: "message option"

definition resolveMessage :: "message option \<Rightarrow> jsval \<Rightarrow> jsval \<Rightarrow> jsval" where
  "resolveMessage msg data defaultMessage =
     (case msg of
        None \<Rightarrow> defaultMessage
      | Some (Static s) \<Rightarrow> (if s = [] then defaultMessage else JStr s)
      | Some (Dynamic f) \<Rightarrow> JStr (f data))"

text \<open>\<open>config?.successMessage\<close> and \<open>config?.errorMessage\<close>\<close>

definition config_message :: "EffectConfig option \<Rightarrow> (EffectConfig \<Rightarrow> message option) \<Rightarrow> message option" where
  "config_message config sel = (case config of None \<Rightarrow> None | Some c \<Rightarrow> sel c)"

text \<open>
  The success branch: \<open>if (config?.successMessage) console.log(resolveMessage(...))\<close>.
\<close>

definition log_success :: "EffectConfig option \<Rightarrow> jsval \<Rightarrow> string \<Rightarrow> jsval list" where
  "log_success config data dflt =
     (case config_message config successMessageI of
        None \<Rightarrow> []
      | Some (Static s) \<Rightarrow>
          (if s = [] then [] else [resolveMessage (Some (Static s)) data (JStr dflt)])
      | Some (Dynamic f) \<Rightarrow> [resolveMessage (Some (Dynamic f)) data (JStr dflt)])"

text \<open>
  The failure branch:
  \<open>resolveMessage(config?.errorMessage, error, error?.message || dflt)\<close>.
\<close>

definition failure_message :: "EffectConfig option \<Rightarrow> jsval \<Rightarrow> string \<Rightarrow> jsval" where
  "failure_message config error dflt =
     resolveMessage (config_message config errorMessage) error
       (js_or (opt_member error ''message'') (JStr dflt))"

definition createLoadEffectI :: "LoadActionsGroup \<Rightarrow> EffectConfig option \<Rightarrow> effect" where
  "createLoadEffectI acts config =
     \<lparr>trigger = load acts, concurrency = SwitchMap, withLatest = None,
      project = (\<lambda>action state. Some
        \<lparr>args = [field action ''params''],
         onValue = (\<lambda>data.
           (create (loadSuccess acts) [''data'' \<mapsto> data],
            log_success config data ''Load successful'')),
         onFail = (\<lambda>error. Some (create (loadFailure acts)
           [''error'' \<mapsto> failure_message config error ''Load failed'']))\<rparr>)\<rparr>"

definition createAddEffectI :: "AddActionsGroup \<Rightarrow> EffectConfig option \<Rightarrow> effect" where
  "createAddEffectI acts config =
     \<lparr>trigger = add acts, concurrency = ExhaustMap, withLatest = None,
      project = (\<lambda>action state. Some
        \<lparr>args = [field action ''payload''],
         onValue = (\<lambda>item.
           (create (addSuccess acts) [''item'' \<mapsto> item],
            log_success config item ''Add successful'')),
         onFail = (\<lambda>error. Some (create (addFailure acts)
           [''error'' \<mapsto> failure_message config error ''Add failed'']))\<rparr>)\<rparr>"

definition createUpdateEffectI :: "UpdateActionsGroup \<Rightarrow> EffectConfig option \<Rightarrow> effect" where
  "createUpdateEffectI acts config =
     \<lparr>trigger = update acts, concurrency = ExhaustMap, withLatest = None,
      project = (\<lambda>action state. Some
        \<lparr>args = [field action ''id'', field action ''payload''],
         onValue = (\<lambda>item.
           (create (updateSuccess acts) [''item'' \<mapsto> item],
            log_success config item ''Update successful'')),
         onFail = (\<lambda>error. Some (create (updateFailure acts)
           [''error'' \<mapsto> failure_message config error ''Update failed'']))\<rparr>)\<rparr>"

definition createDeleteEffectI :: "DeleteActionsGroup \<Rightarrow> EffectConfig option \<Rightarrow> effect" where
  "createDeleteEffectI acts config =
     \<lparr>trigger = delete acts, concurrency = ExhaustMap, withLatest = None,
      project = (\<lambda>action state. Some
        \<lparr>args = [field action ''id''],
         onValue = (\<lambda>x.
           (create (deleteSuccess acts) [''id'' \<mapsto> field action ''id''],
            log_success config (field action ''id'') ''Delete successful'')),
         onFail = (\<lambda>error. Some (create (deleteFailure acts)
           [''error'' \<mapsto> failure_message config error ''Delete failed'']))\<rparr>)\<rparr>"

section \<open>How a created reducer treats a signal\<close>

text \<open>
  The reducers registered for a type, in registration order, and their application in
  sequence: what the table of \<open>createReducer\<close> holds for that type.
\<close>

definition handlers_for :: "string \<Rightarrow> handler list \<Rightarrow> reducer_fn list" where
  "handlers_for t hs = map snd (filter (\<lambda>h. fst h = t) hs)"

definition apply_all :: "reducer_fn list \<Rightarrow> obj \<Rightarrow> obj \<Rightarrow> obj" where
  "apply_all rs state action = fold (\<lambda>r s. r s action) rs state"

section \<open>Pipelines: notifications that come too late\<close>

text \<open>
  A notification of a service call made before the \<open>n\<close>-th one, and a pipeline
  whose live inner Observable, if any, belongs to the \<open>n\<close>-th call or a later one.
\<close>

definition stale :: "nat \<Rightarrow> event \<Rightarrow> bool" where
  "stale n ev = (case ev of Notify k x \<Rightarrow> k < n | _ \<Rightarrow> False)"

definition past :: "nat \<Rightarrow> pipeline \<Rightarrow> bool" where
  "past n st =
     ((case inner st of None \<Rightarrow> True | Some (j, ob) \<Rightarrow> n \<le> j) \<and> n \<le> length (calls st))"

text \<open>The signals of a run reduced in order.\<close>

definition reduce_all :: "action_reducer \<Rightarrow> obj \<Rightarrow> obj list \<Rightarrow> obj" where
  "reduce_all reducer s signals = foldl (\<lambda>state a. reducer (Some state) a) s signals"

section \<open>Example configurations\<close>

text \<open>
  The store of the usage example in ngrx_generic_state_4.ts: two resources and a page
  number in one state, the product resource driven by the full CRUD group.
\<close>

definition product1 :: jsval where
  "product1 = JObj [''id'' \<mapsto> JNum 1, ''name'' \<mapsto> JStr ''Pen'']"

definition product2 :: jsval where
  "product2 = JObj [''id'' \<mapsto> JNum 2, ''name'' \<mapsto> JStr ''Ink'']"

definition initialAppState :: obj where
  "initialAppState =
     [''users'' \<mapsto> JObj (createDefaultState (JArr [])),
      ''products'' \<mapsto> JObj (createDefaultState (JArr [])),
      ''currentPageNumber'' \<mapsto> JNum 1]"

definition appState :: obj where
  "appState =
     [''users'' \<mapsto> JObj (createDefaultState (JArr [])),
      ''products'' \<mapsto> JObj ((createDefaultState (JArr [product1]))(''error'' \<mapsto> JStr ''stale'')),
      ''currentPageNumber'' \<mapsto> JNum 7]"

definition productConfig :: GenericReducerConfig where
  "productConfig =
     \<lparr>actions = createCrudActions ''Product'', onAddSuccess = None, onDeleteSuccess = None,
      onUpdateSuccess = None, stateKey = ''products''\<rparr>"

definition productConfig4 :: GenericReducerConfig4 where
  "productConfig4 =
     \<lparr>actions4 = createCrudActions ''Product'', initialState4 = initialAppState,
      stateKey4 = ''products'', additionalActions4 = None, onAddSuccess4 = None,
      onUpdateSuccess4 = None, onDeleteSuccess4 = None\<rparr>"

text \<open>
  \<open>onAddSuccess\<close> of the usage example,
  \<open>(state, item) => ({ products: { ...state.products, data: state.products.data ?
  [...state.products.data, item] : [item] } })\<close>, as it behaves on the states of its
  declared type (\<open>products\<close> a sub-slice whose \<open>data\<close> is an array or null).
\<close>

definition appendProduct :: "obj \<Rightarrow> jsval \<Rightarrow> obj" where
  "appendProduct state item =
     [''products'' \<mapsto> JObj ((spread (field state ''products''))
        (''data'' \<mapsto> (case opt_member (field state ''products'') ''data'' of
                          JArr ys \<Rightarrow> JArr (ys @ [item])
                        | d \<Rightarrow> JArr [item])))]"

definition productConfigAppending :: GenericReducerConfig where
  "productConfigAppending = productConfig\<lparr>onAddSuccess := Some appendProduct\<rparr>"

text \<open>
  The single-resource usage example: \<open>(state, item) => ({ data: state.data ?
  [...state.data, item] : [item] })\<close> over a flat state, on the same terms.
\<close>

definition appendFlat :: "obj \<Rightarrow> jsval \<Rightarrow> obj" where
  "appendFlat state item =
     [''data'' \<mapsto> (case field state ''data'' of
                       JArr ys \<Rightarrow> JArr (ys @ [item])
                     | d \<Rightarrow> JArr [item])]"

definition pageSignal :: obj where
  "pageSignal = create ''[App] Set Page Number'' [''page'' \<mapsto> JNum 3]"

text \<open>The creators of the product group, as the effects read them.\<close>

definition productLoad :: LoadActionsGroup where
  "productLoad = \<lparr>load = ''[Product] Load'', loadSuccess = ''[Product] Load Success'',
                  loadFailure = ''[Product] Load Failure''\<rparr>"

definition productAdd :: AddActionsGroup where
  "productAdd = \<lparr>add = ''[Product] Add'', addSuccess = ''[Product] Add Success'',
                 addFailure = ''[Product] Add Failure''\<rparr>"

definition addPen :: obj where
  "addPen = create ''[Product] Add'' [''payload'' \<mapsto> product1]"

definition addInk :: obj where
  "addInk = create ''[Product] Add'' [''payload'' \<mapsto> product2]"

definition loadAll :: obj where
  "loadAll = create ''[Product] Load'' Map.empty"

definition reload :: obj where
  "reload = create ''[Product] Load'' [''forceReload'' \<mapsto> JBool True]"

definition selectProducts :: "obj \<Rightarrow> jsval" where
  "selectProducts state = field state ''products''"

definition rejected :: jsval where
  "rejected = JObj [''message'' \<mapsto> JStr ''X'']"


definition blankError :: "EffectConfig option" where
  "blankError = Some \<lparr>successMessageI = None, errorMessage = Some (Dynamic (\<lambda>e. []))\<rparr>"

section \<open>Action groups: distinct type names\<close>

lemma bracket_cancel:
  assumes "''['' @ f @ '']'' @ s1 = ''['' @ g @ '']'' @ s2"
    and "CHR '']'' \<notin> set s1" and "CHR '']'' \<notin> set s2"
  shows "f = g"
proof -
  from assms(1) have "f @ (CHR '']'' # s1) = g @ (CHR '']'' # s2)" by simp
  then consider
      us where "f = g @ us" "us @ (CHR '']'' # s1) = CHR '']'' # s2"
    | us where "f @ us = g" "CHR '']'' # s1 = us @ (CHR '']'' # s2)"
    by (auto simp: append_eq_append_conv2)
  then show ?thesis
  proof cases
    case 1
    show ?thesis
    proof (cases us)
      case Nil
      with 1 show ?thesis by simp
    next
      case (Cons c cs)
      with 1 have "cs @ (CHR '']'' # s1) = s2" by simp
      then have "CHR '']'' \<in> set s2" by auto
      with assms(3) show ?thesis by simp
    qed
  next
    case 2
    show ?thesis
    proof (cases us)
      case Nil
      with 2 show ?thesis by simp
    next
      case (Cons c cs)
      with 2 have "s1 = cs @ (CHR '']'' # s2)" by simp
      then have "CHR '']'' \<in> set s1" by auto
      with assms(2) show ?thesis by simp
    qed
  qed
qed

lemmas group_defs =
  createCrudActions_def createLoadActions_def createAddActions_def
  createUpdateActions_def createDeleteActions_def

lemma crud_lookup:
  "createCrudActions f ''load'' = Some (''['' @ f @ ''] Load'')"
  "createCrudActions f ''loadSuccess'' = Some (''['' @ f @ ''] Load Success'')"
  "createCrudActions f ''loadFailure'' = Some (''['' @ f @ ''] Load Failure'')"
  "createCrudActions f ''add'' = Some (''['' @ f @ ''] Add'')"
  "createCrudActions f ''addSuccess'' = Some (''['' @ f @ ''] Add Success'')"
  "createCrudActions f ''addFailure'' = Some (''['' @ f @ ''] Add Failure'')"
  "createCrudActions f ''update'' = Some (''['' @ f @ ''] Update'')"
  "createCrudActions f ''updateSuccess'' = Some (''['' @ f @ ''] Update Success'')"
  "createCrudActions f ''updateFailure'' = Some (''['' @ f @ ''] Update Failure'')"
  "createCrudActions f ''delete'' = Some (''['' @ f @ ''] Delete'')"
  "createCrudActions f ''deleteSuccess'' = Some (''['' @ f @ ''] Delete Success'')"
  "createCrudActions f ''deleteFailure'' = Some (''['' @ f @ ''] Delete Failure'')"
  "createCrudActions f ''reset'' = Some (''['' @ f @ ''] Reset'')"
  by (simp_all add: group_defs map_add_def)

lemma crud_type_shape:
  "createCrudActions f k = Some t \<Longrightarrow> \<exists>s. t = ''['' @ f @ '']'' @ s \<and> CHR '']'' \<notin> set s"
  by (auto simp: group_defs map_add_def split: if_splits option.splits)

lemma crud_dom: "dom (createCrudActions f) =
  {''load'', ''loadSuccess'', ''loadFailure'', ''reset'', ''add'', ''addSuccess'', ''addFailure'',
   ''update'', ''updateSuccess'', ''updateFailure'', ''delete'', ''deleteSuccess'', ''deleteFailure''}"
  by (auto simp: group_defs split: if_splits)

lemma distinct_crud: "distinct_types (createCrudActions f)"
  unfolding distinct_types_def crud_dom
  by (simp add: group_defs map_add_def)

lemma load_sub_crud: "createLoadActions f k = Some t \<Longrightarrow> createCrudActions f k = Some t"
  by (simp add: group_defs map_add_def split: if_splits)

lemma add_sub_crud: "createAddActions f k = Some t \<Longrightarrow> createCrudActions f k = Some t"
  by (simp add: group_defs map_add_def split: if_splits)

lemma update_sub_crud: "createUpdateActions f k = Some t \<Longrightarrow> createCrudActions f k = Some t"
  by (simp add: group_defs map_add_def split: if_splits)

lemma delete_sub_crud: "createDeleteActions f k = Some t \<Longrightarrow> createCrudActions f k = Some t"
  by (simp add: group_defs map_add_def split: if_splits)

lemma generic_sub_crud:
  "createGenericActions c k = Some t \<Longrightarrow> createCrudActions (feature c) k = Some t"
  by (cases "flag (enableLoad c) True"; cases "flag (enableAdd c) False";
      cases "flag (enableUpdate c) False"; cases "flag (enableDelete c) False")
     (simp_all add: createGenericActions_def Let_def group_defs map_add_def split: if_splits)

lemma distinct_sub:
  assumes "distinct_types h" and "\<And>k t. g k = Some t \<Longrightarrow> h k = Some t"
  shows "distinct_types g"
  unfolding distinct_types_def
proof (rule inj_onI)
  fix x y assume "x \<in> dom g" "y \<in> dom g" "g x = g y"
  then obtain t where "g x = Some t" "g y = Some t" by auto
  then have "h x = Some t" "h y = Some t" using assms(2) by simp_all
  with assms(1) show "x = y" by (auto simp: distinct_types_def inj_on_def dom_def)
qed

lemma cross_feature:
  assumes "createCrudActions f k = Some t" "createCrudActions g k' = Some t"
  shows "f = g"
proof -
  from crud_type_shape [OF assms(1)] obtain s1
    where 1: "t = ''['' @ f @ '']'' @ s1" "CHR '']'' \<notin> set s1" by blast
  from crud_type_shape [OF assms(2)] obtain s2
    where 2: "t = ''['' @ g @ '']'' @ s2" "CHR '']'' \<notin> set s2" by blast
  from 1 2 bracket_cancel [of f s1 g s2] show ?thesis by simp
qed

lemma ran_disjoint:
  assumes "f \<noteq> g"
    and "\<And>k t. a k = Some t \<Longrightarrow> createCrudActions f k = Some t"
    and "\<And>k t. b k = Some t \<Longrightarrow> createCrudActions g k = Some t"
  shows "ran a \<inter> ran b = {}"
proof (rule ccontr)
  assume "ran a \<inter> ran b \<noteq> {}"
  then obtain t k k' where "a k = Some t" "b k' = Some t" by (auto simp: ran_def)
  then have "createCrudActions f k = Some t" "createCrudActions g k' = Some t"
    using assms(2,3) by simp_all
  with cross_feature assms(1) show False by blast
qed

section \<open>Reducers: which handlers a signal reaches\<close>

lemma register_lookup:
  "(case fold register hs m t of None \<Rightarrow> s | Some r \<Rightarrow> r s a) =
   apply_all (handlers_for t hs) (case m t of None \<Rightarrow> s | Some r \<Rightarrow> r s a) a"
proof (induction hs arbitrary: m)
  case Nil
  then show ?case by (simp add: handlers_for_def apply_all_def)
next
  case (Cons h hs)
  obtain t' r' where h: "h = (t', r')" by (cases h)
  show ?case
    unfolding h
    by (simp add: Cons.IH) (simp add: handlers_for_def apply_all_def split: option.splits)
qed

lemma createReducer_eq:
  "createReducer init hs (Some s) a =
     (case a ''type'' of
        Some (JStr t) \<Rightarrow> apply_all (handlers_for t hs) s a
      | _ \<Rightarrow> s)"
  using register_lookup [where hs=hs and m=Map.empty and s=s and a=a]
  by (simp add: createReducer_def Let_def split: option.splits jsval.splits)

lemma createImmerReducer_eq:
  "createImmerReducer init hs (Some s) a = createReducer init hs (Some s) a"
  by (simp add: createImmerReducer_def)

lemma reduce_create:
  "createReducer init hs (Some s) (create t p) = apply_all (handlers_for t hs) s (create t p)"
  by (simp add: createReducer_eq create_def)

lemma handlers_for_append: "handlers_for t (xs @ ys) = handlers_for t xs @ handlers_for t ys"
  by (simp add: handlers_for_def)

lemma handlers_for_concat: "handlers_for t (concat xss) = concat (map (handlers_for t) xss)"
  by (induction xss) (simp_all add: handlers_for_append, simp add: handlers_for_def)

lemma handlers_for_none: "t \<notin> fst ` set hs \<Longrightarrow> handlers_for t hs = []"
  by (auto simp: handlers_for_def filter_empty_conv)

lemma those_Some_map_the:
  "those bs = Some hss \<Longrightarrow> hss = map the bs \<and> (\<forall>b \<in> set bs. b \<noteq> None)"
  by (induction bs arbitrary: hss) (auto split: option.splits)

lemma blocks_handlers_for:
  "blocks bs = Some hs \<Longrightarrow> handlers_for t hs = concat (map (\<lambda>b. handlers_for t (the b)) bs)"
  by (auto simp: blocks_def handlers_for_concat comp_def dest!: those_Some_map_the)

lemma blocks_all_Some: "blocks bs = Some hs \<Longrightarrow> \<forall>b \<in> set bs. b \<noteq> None"
  by (auto simp: blocks_def dest!: those_Some_map_the)

lemma distinct_typesD: "distinct_types g \<Longrightarrow> g k = Some t \<Longrightarrow> g k' = Some t \<Longrightarrow> k' = k"
  by (auto simp: distinct_types_def inj_on_def dom_def)

lemma those_on_handlers:
  assumes "distinct_types g" "g k = Some t"
  shows "those (map (\<lambda>(k, r). on (g k) r) es) = Some hb \<Longrightarrow>
         handlers_for t hb = map snd (filter (\<lambda>e. fst e = k) es)"
proof (induction es arbitrary: hb)
  case Nil
  then show ?case by (simp add: handlers_for_def)
next
  case (Cons e es)
  obtain k' r where e: "e = (k', r)" by (cases e)
  from Cons.prems obtain t' hb' where
    t': "g k' = Some t'" and hb': "those (map (\<lambda>(k, r). on (g k) r) es) = Some hb'"
    and hb: "hb = (t', r) # hb'"
    by (auto simp: e on_def split: option.splits)
  have "t' = t \<longleftrightarrow> k' = k"
    using assms t' distinct_typesD by fastforce
  then show ?case
    using Cons.IH [OF hb'] by (simp add: hb e handlers_for_def)
qed

lemma push_if_handlers_for:
  assumes "distinct_types g" "g k = Some t" "push_if g guard es \<noteq> None"
  shows "handlers_for t (the (push_if g guard es)) =
         (if g guard = None then [] else map snd (filter (\<lambda>e. fst e = k) es))"
proof (cases "g guard = None")
  case True
  then show ?thesis by (simp add: push_if_def handlers_for_def)
next
  case False
  with assms(3) obtain hb where hb: "those (map (\<lambda>(k, r). on (g k) r) es) = Some hb"
    by (auto simp: push_if_def)
  from False have "push_if g guard es = Some hb" by (auto simp: push_if_def hb)
  with False those_on_handlers [OF assms(1,2) hb] show ?thesis
    by auto
qed

lemma those_on_types:
  "those (map (\<lambda>(k, r). on (g k) r) es) = Some hb \<Longrightarrow> fst ` set hb \<subseteq> ran g"
proof (induction es arbitrary: hb)
  case Nil
  then show ?case by simp
next
  case (Cons e es)
  obtain k' r where e: "e = (k', r)" by (cases e)
  from Cons.prems obtain t' hb' where
    t': "g k' = Some t'" and hb': "those (map (\<lambda>(k, r). on (g k) r) es) = Some hb'"
    and hb: "hb = (t', r) # hb'"
    by (auto simp: e on_def split: option.splits)
  from t' have "t' \<in> ran g" by (auto simp: ran_def)
  with Cons.IH [OF hb'] show ?case by (simp add: hb)
qed

lemma push_if_types:
  "Some hb = push_if g guard es \<Longrightarrow> (t, r) \<in> set hb \<Longrightarrow> t \<in> ran g"
  using those_on_types [of g es hb] by (force simp: push_if_def split: if_splits)

lemma blocks_types:
  assumes "blocks bs = Some hs"
    and "\<And>b hb. b \<in> set bs \<Longrightarrow> b = Some hb \<Longrightarrow> fst ` set hb \<subseteq> T"
  shows "fst ` set hs \<subseteq> T"
proof -
  from assms(1) obtain hss where hss: "those bs = Some hss" "hs = concat hss"
    by (auto simp: blocks_def)
  from those_Some_map_the [OF hss(1)]
  have m: "hss = map the bs" "\<forall>b \<in> set bs. b \<noteq> None" by simp_all
  show ?thesis
  proof
    fix t assume "t \<in> fst ` set hs"
    then obtain b where b: "b \<in> set bs" "t \<in> fst ` set (the b)"
      unfolding hss(2) m(1) by auto
    with m(2) obtain hb where "b = Some hb" by auto
    with b assms(2) show "t \<in> T" by fastforce
  qed
qed

lemma default_handler_types:
  assumes "createDefaultReducerHandlers cfg = Some hs"
  shows "fst ` set hs \<subseteq> ran (actions cfg)"
  by (rule blocks_types [OF assms [unfolded createDefaultReducerHandlers_def Let_def]])
     (auto dest: push_if_types)

lemma generic4_handler_types:
  assumes "genericHandlers4 cfg = Some hs"
  shows "fst ` set hs \<subseteq> ran (actions4 cfg)
           \<union> fst ` set (case additionalActions4 cfg of None \<Rightarrow> [] | Some l \<Rightarrow> l)"
  by (rule blocks_types [OF assms [unfolded genericHandlers4_def Let_def]])
     (auto dest: push_if_types)

lemma default_handlers_crud:
  "actions cfg = createCrudActions f \<Longrightarrow> createDefaultReducerHandlers cfg \<noteq> None"
  by (simp add: createDefaultReducerHandlers_def Let_def blocks_def push_if_def on_def crud_lookup)

lemma generic4_handlers_crud:
  "actions4 cfg = createCrudActions f \<Longrightarrow> genericHandlers4 cfg \<noteq> None"
  by (simp add: genericHandlers4_def Let_def blocks_def push_if_def on_def crud_lookup)

lemma flat_handlers_crud:
  "actionsF cfg = createCrudActions f \<Longrightarrow> genericHandlersFlat cfg \<noteq> None"
  by (simp add: genericHandlersFlat_def Let_def blocks_def push_if_def on_def crud_lookup)

lemma unmatched_type_unchanged:
  assumes "\<And>t. a ''type'' = Some (JStr t) \<Longrightarrow> t \<notin> fst ` set hs"
  shows "createReducer init hs (Some s) a = s"
  using assms
  by (auto simp: createReducer_eq handlers_for_none apply_all_def split: option.splits jsval.splits)

section \<open>Reducers: the transitions\<close>

lemma field_spread_data: "field (spread v) ''data'' = opt_member v ''data''"
  by (cases v) (simp_all add: opt_member_def field_def elements_def index_of_key_def digit_of_def)

lemma field_create: "k \<noteq> ''type'' \<Longrightarrow> field (create t p) k = field p k"
  by (simp add: field_def create_def)

lemma default_reduce_intent:
  assumes created: "createDefaultReducerHandlers cfg = Some hs"
    and d: "distinct_types (actions cfg)"
  shows
    "actions cfg ''load'' = Some t \<Longrightarrow>
       createImmerReducer init hs (Some s) (create t p) =
         s(stateKey cfg \<mapsto> JObj ((spread (field s (stateKey cfg)))
             (''isLoading'' \<mapsto> JBool True, ''error'' \<mapsto> Null)))"
    "actions cfg ''add'' = Some t \<Longrightarrow>
       createImmerReducer init hs (Some s) (create t p) =
         s(stateKey cfg \<mapsto> JObj ((spread (field s (stateKey cfg)))
             (''isAdding'' \<mapsto> JBool True, ''error'' \<mapsto> Null)))"
    "actions cfg ''update'' = Some t \<Longrightarrow>
       createImmerReducer init hs (Some s) (create t p) =
         s(stateKey cfg \<mapsto> JObj ((spread (field s (stateKey cfg)))
             (''isUpdating'' \<mapsto> JBool True, ''error'' \<mapsto> Null)))"
    "actions cfg ''delete'' = Some t \<Longrightarrow>
       createImmerReducer init hs (Some s) (create t p) =
         s(stateKey cfg \<mapsto> JObj ((spread (field s (stateKey cfg)))
             (''isDeleting'' \<mapsto> JBool True, ''error'' \<mapsto> Null)))"
  unfolding createImmerReducer_eq reduce_create
    blocks_handlers_for [OF created [unfolded createDefaultReducerHandlers_def Let_def]]
  using blocks_all_Some [OF created [unfolded createDefaultReducerHandlers_def Let_def], simplified]
  by (simp_all add: push_if_handlers_for [OF d] apply_all_def)

lemma default_reduce_failure:
  assumes created: "createDefaultReducerHandlers cfg = Some hs"
    and d: "distinct_types (actions cfg)"
  shows
    "actions cfg ''load'' = Some ti \<Longrightarrow> actions cfg ''loadFailure'' = Some t \<Longrightarrow>
       createImmerReducer init hs (Some s) (create t p) =
         s(stateKey cfg \<mapsto> JObj ((spread (field s (stateKey cfg)))
             (''isLoading'' \<mapsto> JBool False, ''error'' \<mapsto> field p ''error'')))"
    "actions cfg ''add'' = Some ti \<Longrightarrow> actions cfg ''addFailure'' = Some t \<Longrightarrow>
       createImmerReducer init hs (Some s) (create t p) =
         s(stateKey cfg \<mapsto> JObj ((spread (field s (stateKey cfg)))
             (''isAdding'' \<mapsto> JBool False, ''error'' \<mapsto> field p ''error'')))"
    "actions cfg ''update'' = Some ti \<Longrightarrow> actions cfg ''updateFailure'' = Some t \<Longrightarrow>
       createImmerReducer init hs (Some s) (create t p) =
         s(stateKey cfg \<mapsto> JObj ((spread (field s (stateKey cfg)))
             (''isUpdating'' \<mapsto> JBool False, ''error'' \<mapsto> field p ''error'')))"
    "actions cfg ''delete'' = Some ti \<Longrightarrow> actions cfg ''deleteFailure'' = Some t \<Longrightarrow>
       createImmerReducer init hs (Some s) (create t p) =
         s(stateKey cfg \<mapsto> JObj ((spread (field s (stateKey cfg)))
             (''isDeleting'' \<mapsto> JBool False, ''error'' \<mapsto> field p ''error'')))"
  unfolding createImmerReducer_eq reduce_create
    blocks_handlers_for [OF created [unfolded createDefaultReducerHandlers_def Let_def]]
  using blocks_all_Some [OF created [unfolded createDefaultReducerHandlers_def Let_def], simplified]
  by (simp_all add: push_if_handlers_for [OF d] apply_all_def field_create)

lemma default_reduce_add_success:
  assumes created: "createDefaultReducerHandlers cfg = Some hs"
    and d: "distinct_types (actions cfg)"
  shows
    "actions cfg ''add'' = Some ti \<Longrightarrow> actions cfg ''addSuccess'' = Some t \<Longrightarrow>
       createImmerReducer init hs (Some s) (create t p) =
         s(stateKey cfg \<mapsto> JObj ((spread (field s (stateKey cfg)))
             (''isAdding'' \<mapsto> JBool False, ''error'' \<mapsto> Null)))
           ++ patch (onAddSuccess cfg) s (field p ''item'')"
  unfolding createImmerReducer_eq reduce_create
    blocks_handlers_for [OF created [unfolded createDefaultReducerHandlers_def Let_def]]
  using blocks_all_Some [OF created [unfolded createDefaultReducerHandlers_def Let_def], simplified]
  by (simp_all add: push_if_handlers_for [OF d] apply_all_def field_create)

lemma default_reduce_reset:
  assumes created: "createDefaultReducerHandlers cfg = Some hs"
    and d: "distinct_types (actions cfg)"
  shows
    "actions cfg ''reset'' = Some t \<Longrightarrow>
       createImmerReducer init hs (Some s) (create t p) =
         s(stateKey cfg \<mapsto> JObj (createDefaultState Undefined))"
  unfolding createImmerReducer_eq reduce_create
    blocks_handlers_for [OF created [unfolded createDefaultReducerHandlers_def Let_def]]
  using blocks_all_Some [OF created [unfolded createDefaultReducerHandlers_def Let_def], simplified]
  by (simp_all add: push_if_handlers_for [OF d] apply_all_def field_create)

lemma generic4_reducer:
  "createGenericReducer4 cfg = Some reducer \<Longrightarrow>
     \<exists>hs. genericHandlers4 cfg = Some hs \<and> reducer = createReducer (initialState4 cfg) hs"
  by (auto simp: createGenericReducer4_def)

lemma generic4_reduce:
  assumes created: "genericHandlers4 cfg = Some hs"
    and d: "distinct_types (actions4 cfg)"
    and extra: "t \<notin> fst ` set (case additionalActions4 cfg of None \<Rightarrow> [] | Some l \<Rightarrow> l)"
  shows
    "actions4 cfg ''load'' = Some t \<Longrightarrow>
       createReducer init hs (Some s) (create t p) =
         s(stateKey4 cfg \<mapsto> JObj ((spread (field s (stateKey4 cfg)))
             (''isLoading'' \<mapsto> JBool True, ''error'' \<mapsto> Null)))"
    "actions4 cfg ''add'' = Some t \<Longrightarrow>
       createReducer init hs (Some s) (create t p) =
         s(stateKey4 cfg \<mapsto> JObj ((spread (field s (stateKey4 cfg)))
             (''isLoading'' \<mapsto> JBool True, ''error'' \<mapsto> Null)))"
    "actions4 cfg ''update'' = Some t \<Longrightarrow>
       createReducer init hs (Some s) (create t p) =
         s(stateKey4 cfg \<mapsto> JObj ((spread (field s (stateKey4 cfg)))
             (''isLoading'' \<mapsto> JBool True, ''error'' \<mapsto> Null)))"
    "actions4 cfg ''delete'' = Some t \<Longrightarrow>
       createReducer init hs (Some s) (create t p) =
         s(stateKey4 cfg \<mapsto> JObj ((spread (field s (stateKey4 cfg)))
             (''isLoading'' \<mapsto> JBool True, ''error'' \<mapsto> Null)))"
    "actions4 cfg ''reset'' = Some t \<Longrightarrow>
       createReducer init hs (Some s) (create t p) = initialState4 cfg"
  unfolding reduce_create
    blocks_handlers_for [OF created [unfolded genericHandlers4_def Let_def]]
  using blocks_all_Some [OF created [unfolded genericHandlers4_def Let_def], simplified]
    handlers_for_none [OF extra]
  by (simp_all add: push_if_handlers_for [OF d] apply_all_def)

lemma flat_reduce_add:
  assumes created: "genericHandlersFlat cfg = Some hs"
    and d: "distinct_types (actionsF cfg)"
  shows
    "actionsF cfg ''add'' = Some t \<Longrightarrow>
       createReducer init hs (Some s) (create t p) =
         s(''isLoading'' \<mapsto> JBool True, ''error'' \<mapsto> Null)"
    "actionsF cfg ''add'' = Some ti \<Longrightarrow> actionsF cfg ''addSuccess'' = Some t \<Longrightarrow>
       createReducer init hs (Some s) (create t p) =
         s(''isLoading'' \<mapsto> JBool False, ''error'' \<mapsto> Null)
           ++ patch (onAddSuccessF cfg) s (field p ''item'')"
  unfolding reduce_create
    blocks_handlers_for [OF created [unfolded genericHandlersFlat_def Let_def]]
  using blocks_all_Some [OF created [unfolded genericHandlersFlat_def Let_def], simplified]
  by (simp_all add: push_if_handlers_for [OF d] apply_all_def field_create)

section \<open>Claims about action groups and reducers\<close>

text \<open>
  C8. For every feature name the generated creators carry pairwise distinct type names
  (each per-operation group, the combined CRUD group, and the flag-driven group); for
  two distinct feature names the generated groups share no type name, so a signal
  created by one feature's group reaches no handler registered for the other's and
  leaves the state as it is.
\<close>

theorem C8_type_names_distinct:
  "distinct_types (createCrudActions f) \<and> distinct_types (createLoadActions f)
   \<and> distinct_types (createAddActions f) \<and> distinct_types (createUpdateActions f)
   \<and> distinct_types (createDeleteActions f) \<and> distinct_types (createGenericActions c)
   \<and> (f \<noteq> g \<longrightarrow>
        ran (createCrudActions f) \<inter> ran (createCrudActions g) = {}
        \<and> ran (createLoadActions f) \<inter> ran (createLoadActions g) = {}
        \<and> (actions cfg = createCrudActions g \<and> createDefaultReducerHandlers cfg = Some hs
             \<and> t \<in> ran (createCrudActions f)
            \<longrightarrow> createImmerReducer init hs (Some s) (create t p) = s))"
proof -
  have d: "distinct_types (createCrudActions f)" for f by (rule distinct_crud)
  have 1: "distinct_types (createLoadActions f)"
    by (rule distinct_sub [OF d [of f]]) (rule load_sub_crud)
  have 2: "distinct_types (createAddActions f)"
    by (rule distinct_sub [OF d [of f]]) (rule add_sub_crud)
  have 3: "distinct_types (createUpdateActions f)"
    by (rule distinct_sub [OF d [of f]]) (rule update_sub_crud)
  have 4: "distinct_types (createDeleteActions f)"
    by (rule distinct_sub [OF d [of f]]) (rule delete_sub_crud)
  have 5: "distinct_types (createGenericActions c)"
    by (rule distinct_sub [OF d [of "feature c"]]) (rule generic_sub_crud)
  have 6: "ran (createCrudActions f) \<inter> ran (createCrudActions g) = {}" if "f \<noteq> g"
    by (rule ran_disjoint [OF that])
  have 7: "ran (createLoadActions f) \<inter> ran (createLoadActions g) = {}" if "f \<noteq> g"
    by (rule ran_disjoint [OF that]) (erule load_sub_crud)+
  have 8: "createImmerReducer init hs (Some s) (create t p) = s"
    if "f \<noteq> g" and a: "actions cfg = createCrudActions g"
      and h: "createDefaultReducerHandlers cfg = Some hs" and t: "t \<in> ran (createCrudActions f)"
  proof -
    from 6 [OF that(1)] t have "t \<notin> ran (createCrudActions g)" by auto
    with default_handler_types [OF h] a have "t \<notin> fst ` set hs" by auto
    then show ?thesis
      unfolding createImmerReducer_eq
      by (intro unmatched_type_unchanged) (simp add: create_def)
  qed
  from d 1 2 3 4 5 6 7 8 show ?thesis by blast
qed

theorem C8_type_names_distinct_witness:
  "''User'' \<noteq> ''Product''
   \<and> ran (createCrudActions ''User'') \<inter> ran (createCrudActions ''Product'') = {}
   \<and> ran (createLoadActions ''User'') \<inter> ran (createLoadActions ''Product'') = {}
   \<and> (case createDefaultReducerHandlers productConfig of
         None \<Rightarrow> False
       | Some hs \<Rightarrow>
           createImmerReducer initialAppState hs (Some appState)
             (create ''[User] Load'' Map.empty) = appState)"
proof -
  have ne: "''User'' \<noteq> ''Product''" by simp
  have a: "actions productConfig = createCrudActions ''Product''"
    by (simp add: productConfig_def)
  from default_handlers_crud [OF a]
  obtain hs where hs: "createDefaultReducerHandlers productConfig = Some hs" by auto
  have t: "''[User] Load'' \<in> ran (createCrudActions ''User'')"
    by (rule ranI [of _ "''load''"]) (simp add: crud_lookup)
  from C8_type_names_distinct [of "''User''" _ "''Product''" productConfig hs "''[User] Load''"
      initialAppState appState Map.empty] ne a hs t
  show ?thesis by simp
qed

lemma field_upd:
  "field (m(k \<mapsto> v)) k' = (if k' = k then v else field m k')"
  by (simp add: field_def)

text \<open>
  C1. For every enabled operation kind and every state, reducing the intent signal
  (load, add, update or delete) yields a state whose sub-slice has that operation's busy
  flag true and \<open>error\<close> null, and whose \<open>data\<close> is what it was before. In
  ngrx_helper_enhanced.ts each kind has its own flag; in ngrx_generic_state_4.ts every
  kind raises the one flag \<open>isLoading\<close>.
\<close>

theorem C1_intent_sets_busy_flag:
  "(createDefaultReducerHandlers cfg = Some hs \<and> distinct_types (actions cfg)
     \<and> (kind, busy) \<in> {(''load'', ''isLoading''), (''add'', ''isAdding''),
                          (''update'', ''isUpdating''), (''delete'', ''isDeleting'')}
     \<and> actions cfg kind = Some t
    \<longrightarrow> (let slice = field (createImmerReducer init hs (Some s) (create t p)) (stateKey cfg)
         in js_member slice busy = Some (JBool True)
            \<and> js_member slice ''error'' = Some Null
            \<and> js_member slice ''data'' = Some (opt_member (field s (stateKey cfg)) ''data'')))
   \<and> (createGenericReducer4 cfg4 = Some reducer \<and> distinct_types (actions4 cfg4)
       \<and> kind4 \<in> {''load'', ''add'', ''update'', ''delete''}
       \<and> actions4 cfg4 kind4 = Some t4
       \<and> t4 \<notin> fst ` set (case additionalActions4 cfg4 of None \<Rightarrow> [] | Some l \<Rightarrow> l)
    \<longrightarrow> (let slice = field (reducer (Some s) (create t4 p)) (stateKey4 cfg4)
         in js_member slice ''isLoading'' = Some (JBool True)
            \<and> js_member slice ''error'' = Some Null
            \<and> js_member slice ''data'' = Some (opt_member (field s (stateKey4 cfg4)) ''data'')))"
proof (intro conjI impI)
  assume a: "createDefaultReducerHandlers cfg = Some hs \<and> distinct_types (actions cfg)
     \<and> (kind, busy) \<in> {(''load'', ''isLoading''), (''add'', ''isAdding''),
                          (''update'', ''isUpdating''), (''delete'', ''isDeleting'')}
     \<and> actions cfg kind = Some t"
  then have c: "createDefaultReducerHandlers cfg = Some hs" and d: "distinct_types (actions cfg)"
    and t: "actions cfg kind = Some t" by simp_all
  note r = default_reduce_intent [OF c d]
  from a consider "kind = ''load''" "busy = ''isLoading''" | "kind = ''add''" "busy = ''isAdding''"
    | "kind = ''update''" "busy = ''isUpdating''" | "kind = ''delete''" "busy = ''isDeleting''"
    by auto
  then show "let slice = field (createImmerReducer init hs (Some s) (create t p)) (stateKey cfg)
         in js_member slice busy = Some (JBool True)
            \<and> js_member slice ''error'' = Some Null
            \<and> js_member slice ''data'' = Some (opt_member (field s (stateKey cfg)) ''data'')"
  proof cases
    case 1
    with t show ?thesis by (simp add: r(1) field_upd field_spread_data)
  next
    case 2
    with t show ?thesis by (simp add: r(2) field_upd field_spread_data)
  next
    case 3
    with t show ?thesis by (simp add: r(3) field_upd field_spread_data)
  next
    case 4
    with t show ?thesis by (simp add: r(4) field_upd field_spread_data)
  qed
next
  assume a: "createGenericReducer4 cfg4 = Some reducer \<and> distinct_types (actions4 cfg4)
       \<and> kind4 \<in> {''load'', ''add'', ''update'', ''delete''}
       \<and> actions4 cfg4 kind4 = Some t4
       \<and> t4 \<notin> fst ` set (case additionalActions4 cfg4 of None \<Rightarrow> [] | Some l \<Rightarrow> l)"
  then obtain hs4 where c: "genericHandlers4 cfg4 = Some hs4"
    and red: "reducer = createReducer (initialState4 cfg4) hs4"
    using generic4_reducer by blast
  from a have d: "distinct_types (actions4 cfg4)" and t: "actions4 cfg4 kind4 = Some t4"
    and e: "t4 \<notin> fst ` set (case additionalActions4 cfg4 of None \<Rightarrow> [] | Some l \<Rightarrow> l)"
    by simp_all
  note r = generic4_reduce [OF c d e]
  from a consider "kind4 = ''load''" | "kind4 = ''add''" | "kind4 = ''update''" | "kind4 = ''delete''"
    by auto
  then show "let slice = field (reducer (Some s) (create t4 p)) (stateKey4 cfg4)
         in js_member slice ''isLoading'' = Some (JBool True)
            \<and> js_member slice ''error'' = Some Null
            \<and> js_member slice ''data'' = Some (opt_member (field s (stateKey4 cfg4)) ''data'')"
  proof cases
    case 1
    with t show ?thesis by (simp add: red r(1) field_upd field_spread_data)
  next
    case 2
    with t show ?thesis by (simp add: red r(2) field_upd field_spread_data)
  next
    case 3
    with t show ?thesis by (simp add: red r(3) field_upd field_spread_data)
  next
    case 4
    with t show ?thesis by (simp add: red r(4) field_upd field_spread_data)
  qed
qed

lemma appState_products_data:
  "opt_member (field appState ''products'') ''data'' = JArr [product1]"
  by (simp add: appState_def field_def opt_member_def createDefaultState_def)

theorem C1_intent_sets_busy_flag_witness:
  "(case createDefaultReducerHandlers productConfig of
      None \<Rightarrow> False
    | Some hs \<Rightarrow>
        (let slice = field (createImmerReducer initialAppState hs (Some appState)
                              (create ''[Product] Add'' [''payload'' \<mapsto> product2])) ''products''
         in js_member slice ''isAdding'' = Some (JBool True)
            \<and> js_member slice ''error'' = Some Null
            \<and> js_member slice ''data'' = Some (JArr [product1])))
   \<and> (case createGenericReducer4 productConfig4 of
        None \<Rightarrow> False
      | Some reducer \<Rightarrow>
        (let slice = field (reducer (Some appState)
                              (create ''[Product] Delete'' [''id'' \<mapsto> JNum 1])) ''products''
         in js_member slice ''isLoading'' = Some (JBool True)
            \<and> js_member slice ''error'' = Some Null
            \<and> js_member slice ''data'' = Some (JArr [product1])))"
proof -
  have a: "actions productConfig = createCrudActions ''Product''"
    and a4: "actions4 productConfig4 = createCrudActions ''Product''"
    by (simp_all add: productConfig_def productConfig4_def)
  from default_handlers_crud [OF a]
  obtain hs where hs: "createDefaultReducerHandlers productConfig = Some hs" by auto
  from generic4_handlers_crud [OF a4]
  obtain reducer where r: "createGenericReducer4 productConfig4 = Some reducer"
    by (auto simp: createGenericReducer4_def)
  have d: "distinct_types (actions productConfig)" "distinct_types (actions4 productConfig4)"
    by (simp_all add: a a4 distinct_crud)
  have k: "stateKey productConfig = ''products''" "stateKey4 productConfig4 = ''products''"
    "additionalActions4 productConfig4 = None"
    by (simp_all add: productConfig_def productConfig4_def)
  from C1_intent_sets_busy_flag [of productConfig hs "''add''" "''isAdding''" "''[Product] Add''"
      initialAppState appState "[''payload'' \<mapsto> product2]" productConfig4 reducer "''delete''"
      "''[Product] Delete''"]
  have "(let slice = field (createImmerReducer initialAppState hs (Some appState)
                              (create ''[Product] Add'' [''payload'' \<mapsto> product2])) ''products''
         in js_member slice ''isAdding'' = Some (JBool True)
            \<and> js_member slice ''error'' = Some Null
            \<and> js_member slice ''data'' = Some (JArr [product1]))"
    using hs d a k by (simp add: crud_lookup appState_products_data)
  moreover
  from C1_intent_sets_busy_flag [of productConfig hs "''add''" "''isAdding''" "''[Product] Add''"
      initialAppState appState "[''id'' \<mapsto> JNum 1]" productConfig4 reducer "''delete''"
      "''[Product] Delete''"]
  have "(let slice = field (reducer (Some appState)
                              (create ''[Product] Delete'' [''id'' \<mapsto> JNum 1])) ''products''
         in js_member slice ''isLoading'' = Some (JBool True)
            \<and> js_member slice ''error'' = Some Null
            \<and> js_member slice ''data'' = Some (JArr [product1]))"
    using r d a4 k by (simp add: crud_lookup appState_products_data)
  ultimately show ?thesis by (simp add: hs r)
qed

text \<open>
  C9. A reducer built by the reducer factory returns the input state unchanged for
  every signal whose type is none of the types of its action group, nor the type of a
  caller-supplied additional transition: \<open>createGenericReducer\<close> of
  ngrx_generic_state_4.ts, \<open>createImmerReducer\<close> over any handler list, and
  \<open>createImmerReducer\<close> over the handlers of \<open>createDefaultReducerHandlers\<close>.
\<close>

theorem C9_unknown_signal_leaves_state:
  "(createGenericReducer4 cfg4 = Some reducer
      \<and> (\<forall>t. a ''type'' = Some (JStr t) \<longrightarrow>
            t \<notin> ran (actions4 cfg4)
            \<and> t \<notin> fst ` set (case additionalActions4 cfg4 of None \<Rightarrow> [] | Some l \<Rightarrow> l))
     \<longrightarrow> reducer (Some s) a = s)
   \<and> ((\<forall>t. a ''type'' = Some (JStr t) \<longrightarrow> t \<notin> fst ` set onList)
     \<longrightarrow> createImmerReducer init onList (Some s) a = s)
   \<and> (createDefaultReducerHandlers cfg = Some hs
      \<and> (\<forall>t. a ''type'' = Some (JStr t) \<longrightarrow> t \<notin> ran (actions cfg))
     \<longrightarrow> createImmerReducer init hs (Some s) a = s)"
proof (intro conjI impI)
  assume h: "createGenericReducer4 cfg4 = Some reducer
      \<and> (\<forall>t. a ''type'' = Some (JStr t) \<longrightarrow>
            t \<notin> ran (actions4 cfg4)
            \<and> t \<notin> fst ` set (case additionalActions4 cfg4 of None \<Rightarrow> [] | Some l \<Rightarrow> l))"
  then obtain hs4 where c: "genericHandlers4 cfg4 = Some hs4"
    and red: "reducer = createReducer (initialState4 cfg4) hs4"
    using generic4_reducer by blast
  from generic4_handler_types [OF c] h
  have "\<And>t. a ''type'' = Some (JStr t) \<Longrightarrow> t \<notin> fst ` set hs4" by blast
  then show "reducer (Some s) a = s"
    unfolding red by (rule unmatched_type_unchanged)
next
  assume "\<forall>t. a ''type'' = Some (JStr t) \<longrightarrow> t \<notin> fst ` set onList"
  then show "createImmerReducer init onList (Some s) a = s"
    unfolding createImmerReducer_eq by (intro unmatched_type_unchanged) blast
next
  assume h: "createDefaultReducerHandlers cfg = Some hs
      \<and> (\<forall>t. a ''type'' = Some (JStr t) \<longrightarrow> t \<notin> ran (actions cfg))"
  with default_handler_types [of cfg hs]
  have "\<And>t. a ''type'' = Some (JStr t) \<Longrightarrow> t \<notin> fst ` set hs" by blast
  then show "createImmerReducer init hs (Some s) a = s"
    unfolding createImmerReducer_eq by (rule unmatched_type_unchanged)
qed

lemma page_signal_foreign: "''[App] Set Page Number'' \<notin> ran (createCrudActions ''Product'')"
proof
  assume "''[App] Set Page Number'' \<in> ran (createCrudActions ''Product'')"
  then obtain k where "createCrudActions ''Product'' k = Some ''[App] Set Page Number''"
    by (auto simp: ran_def)
  from crud_type_shape [OF this] obtain s2
    where "''[App] Set Page Number'' = ''['' @ ''Product'' @ '']'' @ s2" "CHR '']'' \<notin> set s2"
    by blast
  with bracket_cancel [of "''App''" "'' Set Page Number''" "''Product''" s2]
  show False by simp
qed

theorem C9_unknown_signal_leaves_state_witness:
  "(case createGenericReducer4 productConfig4 of
      None \<Rightarrow> False
    | Some reducer \<Rightarrow> reducer (Some appState) pageSignal = appState)
   \<and> (case createDefaultReducerHandlers productConfig of
        None \<Rightarrow> False
      | Some hs \<Rightarrow> createImmerReducer initialAppState hs (Some appState) pageSignal = appState)"
proof -
  have a: "actions productConfig = createCrudActions ''Product''"
    and a4: "actions4 productConfig4 = createCrudActions ''Product''"
    and n: "additionalActions4 productConfig4 = None"
    by (simp_all add: productConfig_def productConfig4_def)
  from default_handlers_crud [OF a]
  obtain hs where hs: "createDefaultReducerHandlers productConfig = Some hs" by auto
  from generic4_handlers_crud [OF a4]
  obtain reducer where r: "createGenericReducer4 productConfig4 = Some reducer"
    by (auto simp: createGenericReducer4_def)
  have t: "pageSignal ''type'' = Some (JStr ''[App] Set Page Number'')"
    by (simp add: pageSignal_def create_def)
  from C9_unknown_signal_leaves_state [of productConfig4 reducer pageSignal appState hs
      initialAppState productConfig]
  have "reducer (Some appState) pageSignal = appState"
    and "createImmerReducer initialAppState hs (Some appState) pageSignal = appState"
    using r hs t a a4 n page_signal_foreign by simp_all
  then show ?thesis by (simp add: hs r)
qed

text \<open>
  C5, on the code. In ngrx_helper_enhanced.ts, reducing \<open>reset\<close> yields the prior
  state with the sub-slice at \<open>stateKey\<close> replaced by the default-constructed state
  (data null, error null, the four busy flags false), whatever the sub-slice held, and
  every other field unchanged. \<open>createGenericReducer\<close> of ngrx_generic_state_4.ts
  does not: in the usage example's store, with a user loaded, a product loaded and the
  page number at 7, a product reset puts the page number back to 1, empties the user
  resource and leaves the product \<open>data\<close> an empty array.
\<close>

theorem C5_reset_sub_slice:
  "(createDefaultReducerHandlers cfg = Some hs \<and> distinct_types (actions cfg)
      \<and> actions cfg ''reset'' = Some t
     \<longrightarrow> (let s' = createImmerReducer init hs (Some s) (create t p)
          in s' (stateKey cfg) = Some (JObj (createDefaultState Undefined))
             \<and> (\<forall>k. k \<noteq> stateKey cfg \<longrightarrow> s' k = s k)))
   \<and> createDefaultState Undefined =
        [''data'' \<mapsto> Null, ''error'' \<mapsto> Null, ''isLoading'' \<mapsto> JBool False,
         ''isAdding'' \<mapsto> JBool False, ''isUpdating'' \<mapsto> JBool False,
         ''isDeleting'' \<mapsto> JBool False]
   \<and> (case createGenericReducer4 productConfig4 of
        None \<Rightarrow> False
      | Some reducer \<Rightarrow>
          (let s0 = appState(''users'' \<mapsto> JObj (createDefaultState (JArr [JStr ''Ann''])));
               s' = reducer (Some s0) (create ''[Product] Reset'' Map.empty)
           in field s0 ''currentPageNumber'' = JNum 7
              \<and> field s' ''currentPageNumber'' = JNum 1
              \<and> field s' ''users'' = JObj (createDefaultState (JArr []))
              \<and> js_member (field s' ''products'') ''data'' = Some (JArr [])))"
proof (intro conjI impI)
  assume "createDefaultReducerHandlers cfg = Some hs \<and> distinct_types (actions cfg)
      \<and> actions cfg ''reset'' = Some t"
  then have "createDefaultReducerHandlers cfg = Some hs" "distinct_types (actions cfg)"
    "actions cfg ''reset'' = Some t" by simp_all
  from default_reduce_reset [OF this]
  show "let s' = createImmerReducer init hs (Some s) (create t p)
          in s' (stateKey cfg) = Some (JObj (createDefaultState Undefined))
             \<and> (\<forall>k. k \<noteq> stateKey cfg \<longrightarrow> s' k = s k)"
    by simp
next
  show "createDefaultState Undefined =
        [''data'' \<mapsto> Null, ''error'' \<mapsto> Null, ''isLoading'' \<mapsto> JBool False,
         ''isAdding'' \<mapsto> JBool False, ''isUpdating'' \<mapsto> JBool False,
         ''isDeleting'' \<mapsto> JBool False]"
    by (simp add: createDefaultState_def)
next
  have a4: "actions4 productConfig4 = createCrudActions ''Product''"
    and n: "additionalActions4 productConfig4 = None"
    and i: "initialState4 productConfig4 = initialAppState"
    by (simp_all add: productConfig4_def)
  from generic4_handlers_crud [OF a4]
  obtain hs4 where hs4: "genericHandlers4 productConfig4 = Some hs4" by auto
  have d: "distinct_types (actions4 productConfig4)" by (simp add: a4 distinct_crud)
  have e: "''[Product] Reset'' \<notin> fst ` set (case additionalActions4 productConfig4 of None \<Rightarrow> [] | Some l \<Rightarrow> l)"
    by (simp add: n)
  have r: "createReducer initialAppState hs4 (Some s0) (create ''[Product] Reset'' Map.empty)
          = initialAppState" for s0
    using generic4_reduce(5) [OF hs4 d e, of initialAppState s0 Map.empty]
    by (simp add: a4 crud_lookup i)
  show "case createGenericReducer4 productConfig4 of
        None \<Rightarrow> False
      | Some reducer \<Rightarrow>
          (let s0 = appState(''users'' \<mapsto> JObj (createDefaultState (JArr [JStr ''Ann''])));
               s' = reducer (Some s0) (create ''[Product] Reset'' Map.empty)
           in field s0 ''currentPageNumber'' = JNum 7
              \<and> field s' ''currentPageNumber'' = JNum 1
              \<and> field s' ''users'' = JObj (createDefaultState (JArr []))
              \<and> js_member (field s' ''products'') ''data'' = Some (JArr []))"
    by (simp add: createGenericReducer4_def hs4 i r Let_def)
       (simp add: initialAppState_def appState_def field_def createDefaultState_def)
qed

text \<open>
  The reset of ngrx_helper_enhanced.ts on the same store: the product sub-slice is the
  default-constructed state, the page number and the user resource are as they were.
\<close>

theorem C5_reset_sub_slice_witness:
  "(case createDefaultReducerHandlers productConfig of
      None \<Rightarrow> False
    | Some hs \<Rightarrow>
        (let s' = createImmerReducer initialAppState hs (Some appState)
                    (create ''[Product] Reset'' Map.empty)
         in s' ''products'' = Some (JObj (createDefaultState Undefined))
            \<and> s' ''currentPageNumber'' = Some (JNum 7) \<and> s' ''users'' = appState ''users''))"
proof -
  have a: "actions productConfig = createCrudActions ''Product''"
    and k: "stateKey productConfig = ''products''"
    by (simp_all add: productConfig_def)
  from default_handlers_crud [OF a]
  obtain hs where hs: "createDefaultReducerHandlers productConfig = Some hs" by auto
  have d: "distinct_types (actions productConfig)"
    by (simp add: a distinct_crud)
  from C5_reset_sub_slice [of productConfig hs "''[Product] Reset''" initialAppState appState
      Map.empty]
  have "(let s' = createImmerReducer initialAppState hs (Some appState)
                    (create ''[Product] Reset'' Map.empty)
         in s' ''products'' = Some (JObj (createDefaultState Undefined))
            \<and> s' ''currentPageNumber'' = Some (JNum 7) \<and> s' ''users'' = appState ''users'')"
    using hs d a k by (simp add: crud_lookup Let_def appState_def)
  then show ?thesis by (simp add: hs)
qed

text \<open>
  C4, on the code of ngrx_helper_enhanced.ts. The add-success handler first writes
  \<open>isAdding: false\<close> into the sub-slice and then spreads the callback's patch over
  the whole state, and the callback was given the state from before the handler ran. A
  callback that appends the item the way the usage example does (its patch is the
  sub-slice of the state it was given, with the item appended to \<open>data\<close>) therefore
  replaces the sub-slice the handler has just written: \<open>data\<close> is the prior
  collection with the item appended, and \<open>isAdding\<close> is still true.
\<close>

theorem C4_add_success_keeps_busy_flag:
  "createDefaultReducerHandlers cfg = Some hs \<and> distinct_types (actions cfg)
     \<and> actions cfg ''add'' = Some ta \<and> actions cfg ''addSuccess'' = Some ts
     \<and> opt_member (field s (stateKey cfg)) ''data'' = JArr xs
     \<and> onAddSuccess cfg = Some f
     \<and> (\<forall>st ys. opt_member (field st (stateKey cfg)) ''data'' = JArr ys \<longrightarrow>
            f st item = [stateKey cfg \<mapsto> JObj ((spread (field st (stateKey cfg)))
                                             (''data'' \<mapsto> JArr (ys @ [item])))])
   \<longrightarrow> (let s1 = createImmerReducer init hs (Some s) (create ta [''payload'' \<mapsto> payload]);
            s2 = createImmerReducer init hs (Some s1) (create ts [''item'' \<mapsto> item]);
            slice = field s2 (stateKey cfg)
        in js_member slice ''data'' = Some (JArr (xs @ [item]))
           \<and> js_member slice ''isAdding'' = Some (JBool True))"
proof
  assume h: "createDefaultReducerHandlers cfg = Some hs \<and> distinct_types (actions cfg)
     \<and> actions cfg ''add'' = Some ta \<and> actions cfg ''addSuccess'' = Some ts
     \<and> opt_member (field s (stateKey cfg)) ''data'' = JArr xs
     \<and> onAddSuccess cfg = Some f
     \<and> (\<forall>st ys. opt_member (field st (stateKey cfg)) ''data'' = JArr ys \<longrightarrow>
            f st item = [stateKey cfg \<mapsto> JObj ((spread (field st (stateKey cfg)))
                                             (''data'' \<mapsto> JArr (ys @ [item])))])"
  then have c: "createDefaultReducerHandlers cfg = Some hs" and d: "distinct_types (actions cfg)"
    and ta: "actions cfg ''add'' = Some ta" and ts: "actions cfg ''addSuccess'' = Some ts"
    and xs: "opt_member (field s (stateKey cfg)) ''data'' = JArr xs"
    and f: "onAddSuccess cfg = Some f" by simp_all
  define key where "key = stateKey cfg"
  define s1 where "s1 = createImmerReducer init hs (Some s) (create ta [''payload'' \<mapsto> payload])"
  have s1: "s1 = s(key \<mapsto> JObj ((spread (field s key))
             (''isAdding'' \<mapsto> JBool True, ''error'' \<mapsto> Null)))"
    unfolding s1_def key_def by (rule default_reduce_intent(2) [OF c d ta])
  have d1: "opt_member (field s1 key) ''data'' = JArr xs"
    using xs by (simp add: s1 field_upd opt_member_def field_spread_data key_def)
  with h have p: "f s1 item = [key \<mapsto> JObj ((spread (field s1 key))(''data'' \<mapsto> JArr (xs @ [item])))]"
    by (simp add: key_def)
  have "createImmerReducer init hs (Some s1) (create ts [''item'' \<mapsto> item]) =
          s1(key \<mapsto> JObj ((spread (field s1 key))
             (''isAdding'' \<mapsto> JBool False, ''error'' \<mapsto> Null)))
           ++ patch (onAddSuccess cfg) s1 (field [''item'' \<mapsto> item] ''item'')"
    unfolding key_def by (rule default_reduce_add_success [OF c d ta ts])
  then have "field (createImmerReducer init hs (Some s1) (create ts [''item'' \<mapsto> item])) key
      = JObj ((spread (field s1 key))(''data'' \<mapsto> JArr (xs @ [item])))"
    by (simp add: patch_def f field_upd p)
  then show "let s1 = createImmerReducer init hs (Some s) (create ta [''payload'' \<mapsto> payload]);
            s2 = createImmerReducer init hs (Some s1) (create ts [''item'' \<mapsto> item]);
            slice = field s2 (stateKey cfg)
        in js_member slice ''data'' = Some (JArr (xs @ [item]))
           \<and> js_member slice ''isAdding'' = Some (JBool True)"
    unfolding Let_def s1_def [symmetric] key_def [symmetric]
    by (simp add: field_upd) (simp add: s1 field_upd)
qed

lemma appendProduct_appends:
  "opt_member (field st ''products'') ''data'' = JArr ys \<Longrightarrow>
     appendProduct st item = [''products'' \<mapsto> JObj ((spread (field st ''products''))
                                             (''data'' \<mapsto> JArr (ys @ [item])))]"
  by (simp add: appendProduct_def)

theorem C4_add_success_keeps_busy_flag_witness:
  "(case createDefaultReducerHandlers productConfigAppending of
      None \<Rightarrow> False
    | Some hs \<Rightarrow>
       (let s1 = createImmerReducer initialAppState hs (Some appState)
                   (create ''[Product] Add'' [''payload'' \<mapsto> product2]);
            s2 = createImmerReducer initialAppState hs (Some s1)
                   (create ''[Product] Add Success'' [''item'' \<mapsto> product2]);
            slice = field s2 ''products''
        in js_member slice ''data'' = Some (JArr [product1, product2])
           \<and> js_member slice ''isAdding'' = Some (JBool True)))"
proof -
  have a: "actions productConfigAppending = createCrudActions ''Product''"
    and k: "stateKey productConfigAppending = ''products''"
    and f: "onAddSuccess productConfigAppending = Some appendProduct"
    by (simp_all add: productConfigAppending_def productConfig_def)
  from default_handlers_crud [OF a]
  obtain hs where hs: "createDefaultReducerHandlers productConfigAppending = Some hs" by auto
  have d: "distinct_types (actions productConfigAppending)" by (simp add: a distinct_crud)
  from C4_add_success_keeps_busy_flag [of productConfigAppending hs "''[Product] Add''"
      "''[Product] Add Success''" appState "[product1]" appendProduct product2 initialAppState product2]
  show ?thesis
    using hs d a k f appendProduct_appends
    by (simp add: crud_lookup appState_products_data)
qed

text \<open>
  The single-resource reducer keeps its fields in the state itself, so there the same
  spread does what C4 says: the item is appended and the busy flag is false.
\<close>

lemma flat_add_success_appends:
  assumes "createGenericReducerFlat cfg = Some reducer" "additionalReducersF cfg = None"
    and "distinct_types (actionsF cfg)"
    and "actionsF cfg ''add'' = Some ta" "actionsF cfg ''addSuccess'' = Some ts"
    and "field s ''data'' = JArr xs" "onAddSuccessF cfg = Some appendFlat"
  shows "let s1 = reducer (Some s) (create ta [''payload'' \<mapsto> payload]);
             s2 = reducer (Some s1) (create ts [''item'' \<mapsto> item])
         in field s2 ''data'' = JArr (xs @ [item]) \<and> field s2 ''isLoading'' = JBool False
            \<and> field s2 ''error'' = Null"
proof -
  from assms(1,2) obtain hs where c: "genericHandlersFlat cfg = Some hs"
    and red: "reducer = createReducer (initialStateF cfg) hs"
    by (auto simp: createGenericReducerFlat_def Let_def split: option.splits)
  note r = flat_reduce_add [OF c assms(3)]
  show ?thesis
    unfolding red Let_def r(1) [OF assms(4)] r(2) [OF assms(4,5)]
    using assms(6,7)
    by (simp add: patch_def appendFlat_def field_def)
qed

section \<open>Pipelines: switching and exhausting\<close>

lemma run_Nil: "run eff st [] = st"
  by (simp add: run_def)

lemma run_Cons: "run eff st (ev # evs) = run eff (step eff st ev) evs"
  by (simp add: run_def)

lemma stale_ignored: "past n st \<Longrightarrow> stale n ev \<Longrightarrow> step eff st ev = st"
  by (cases ev) (auto simp: past_def stale_def step_def notify_def split: option.splits)

lemma past_start: "past n st \<Longrightarrow> past n (start eff st a v)"
  by (auto simp: past_def start_def split: option.splits)

lemma past_step: "past n st \<Longrightarrow> past n (step eff st ev)"
proof (cases ev)
  case (Dispatch a)
  assume p: "past n st"
  then show ?thesis
    unfolding Dispatch step_def dispatch_def flatten_def
    by (auto simp: past_start split: option.splits policy.splits)
next
  case (StoreState s)
  assume "past n st"
  then show ?thesis
    unfolding StoreState step_def by (auto simp: past_def split: option.splits)
next
  case (Notify k x)
  assume "past n st"
  then show ?thesis
    unfolding Notify step_def notify_def
    by (auto simp: past_def split: option.splits notification.splits)
qed

lemma run_filter_stale:
  "past n st \<Longrightarrow> run eff st evs = run eff st (filter (\<lambda>ev. \<not> stale n ev) evs)"
proof (induction evs arbitrary: st)
  case Nil
  then show ?case by simp
next
  case (Cons ev evs)
  show ?case
  proof (cases "stale n ev")
    case True
    with Cons show ?thesis by (simp add: run_Cons stale_ignored)
  next
    case False
    with Cons.IH [OF past_step [OF Cons.prems]] show ?thesis by (simp add: run_Cons)
  qed
qed

lemma switch_supersedes:
  assumes "concurrency eff = SwitchMap" "\<not> failed st"
    and "a ''type'' = Some (JStr (trigger eff))"
    and "withLatest eff \<noteq> None \<Longrightarrow> latest st \<noteq> None"
  shows "past (length (calls st)) (step eff st (Dispatch a))"
  using assms
  by (auto simp: step_def dispatch_def flatten_def start_def past_def split: option.splits)

lemma exhaust_drops:
  assumes "concurrency eff = ExhaustMap" "inner st \<noteq> None"
  shows "step eff st (Dispatch a) = st"
  using assms
  by (auto simp: step_def dispatch_def flatten_def split: option.splits)

lemma first_dispatch:
  assumes "withLatest eff = None" "a ''type'' = Some (JStr (trigger eff))"
    and "project eff a Undefined = Some ob"
  shows "step eff subscribed (Dispatch a) = subscribed\<lparr>calls := [args ob], inner := Some (0, ob)\<rparr>"
  using assms
  by (auto simp: step_def dispatch_def flatten_def start_def subscribed_def split: policy.splits)

lemmas effect_defs =
  createLoadEffect_def createAddEffect_def createUpdateEffect_def createDeleteEffect_def
  createLoadEffect4_def createAddEffect4_def createUpdateEffect4_def createDeleteEffect4_def
  createLoadEffectI_def createAddEffectI_def createUpdateEffectI_def createDeleteEffectI_def

lemma exhaust_family:
  assumes "eff \<in> {createAddEffect aa mc, createUpdateEffect ua mc, createDeleteEffect da mc,
                  createAddEffect4 aa, createUpdateEffect4 ua, createDeleteEffect4 da,
                  createAddEffectI aa ci, createUpdateEffectI ua ci, createDeleteEffectI da ci}"
  shows "concurrency eff = ExhaustMap" "withLatest eff = None"
    "\<exists>ob. project eff a v = Some ob \<and> (\<forall>e. js_member e ''message'' \<noteq> None \<longrightarrow> onFail ob e \<noteq> None)"
  using assms by (auto simp: effect_defs Let_def message_or_def)

lemma exhaust_scenario:
  assumes x: "concurrency eff = ExhaustMap" and w: "withLatest eff = None"
    and t: "a1 ''type'' = Some (JStr (trigger eff))"
    and p: "project eff a1 Undefined = Some ob"
  shows "run eff subscribed (Dispatch a1 # Dispatch a2 # evs) = run eff subscribed (Dispatch a1 # evs)"
    and "run eff subscribed [Dispatch a1, Dispatch a2] =
          \<lparr>latest = None, calls = [args ob], inner = Some (0, ob), emitted = [], console = [],
           failed = False\<rparr>"
    and "run eff subscribed [Dispatch a1, Dispatch a2, Notify 0 (OnNext v), Notify 0 OnComplete] =
          \<lparr>latest = None, calls = [args ob], inner = None, emitted = [fst (onValue ob v)],
           console = snd (onValue ob v), failed = False\<rparr>"
    and "onFail ob e = Some sig \<Longrightarrow>
         run eff subscribed [Dispatch a1, Dispatch a2, Notify 0 (OnError e)] =
          \<lparr>latest = None, calls = [args ob], inner = None, emitted = [sig], console = [],
           failed = False\<rparr>"
proof -
  have 1: "step eff subscribed (Dispatch a1) =
      \<lparr>latest = None, calls = [args ob], inner = Some (0, ob), emitted = [], console = [],
       failed = False\<rparr>"
    by (simp add: first_dispatch [OF w t p]) (simp add: subscribed_def)
  have 2: "step eff \<lparr>latest = None, calls = [args ob], inner = Some (0, ob), emitted = [],
       console = [], failed = False\<rparr> (Dispatch a2) =
      \<lparr>latest = None, calls = [args ob], inner = Some (0, ob), emitted = [], console = [],
       failed = False\<rparr>"
    by (rule exhaust_drops [OF x]) simp
  show "run eff subscribed (Dispatch a1 # Dispatch a2 # evs) = run eff subscribed (Dispatch a1 # evs)"
    by (simp add: run_Cons 1 2)
  show "run eff subscribed [Dispatch a1, Dispatch a2] =
          \<lparr>latest = None, calls = [args ob], inner = Some (0, ob), emitted = [], console = [],
           failed = False\<rparr>"
    by (simp add: run_Cons run_Nil 1 2)
  show "run eff subscribed [Dispatch a1, Dispatch a2, Notify 0 (OnNext v), Notify 0 OnComplete] =
          \<lparr>latest = None, calls = [args ob], inner = None, emitted = [fst (onValue ob v)],
           console = snd (onValue ob v), failed = False\<rparr>"
    by (simp add: run_Cons run_Nil 1 2) (simp add: step_def notify_def)
  show "onFail ob e = Some sig \<Longrightarrow>
         run eff subscribed [Dispatch a1, Dispatch a2, Notify 0 (OnError e)] =
          \<lparr>latest = None, calls = [args ob], inner = None, emitted = [sig], console = [],
           failed = False\<rparr>"
    by (simp add: run_Cons run_Nil 1 2) (simp add: step_def notify_def)
qed

lemma failed_run: "failed st \<Longrightarrow> run eff st evs = st"
  by (induction evs) (simp_all add: run_Nil run_Cons step_def)

lemma run_append: "run eff st (xs @ ys) = run eff (run eff st xs) ys"
  by (simp add: run_def)

lemma exhaust_selector_total:
  assumes "eff \<in> {createAddEffectI aa ci, createUpdateEffectI ua ci, createDeleteEffectI da ci}"
  shows "\<exists>ob. project eff a v = Some ob \<and> (\<forall>e. onFail ob e \<noteq> None)"
  using assms by (auto simp: effect_defs)

lemma exhaust_selector_throws:
  assumes "eff \<in> {createAddEffect aa mc, createUpdateEffect ua mc, createDeleteEffect da mc,
                  createAddEffect4 aa, createUpdateEffect4 ua, createDeleteEffect4 da}"
  shows "\<exists>ob. project eff a v = Some ob
           \<and> (\<forall>e. js_member e ''message'' = None \<longrightarrow> onFail ob e = None)"
  using assms by (auto simp: effect_defs Let_def message_or_def)

lemma exhaust_scenario_throw:
  assumes x: "concurrency eff = ExhaustMap" and w: "withLatest eff = None"
    and t: "a1 ''type'' = Some (JStr (trigger eff))"
    and p: "project eff a1 Undefined = Some ob"
    and f: "onFail ob e = None"
  shows "run eff subscribed [Dispatch a1, Dispatch a2, Notify 0 (OnError e)] =
          \<lparr>latest = None, calls = [args ob], inner = None, emitted = [], console = [],
           failed = True\<rparr>"
  by (simp add: run_Cons run_Nil exhaust_scenario(2) [OF x w t p, unfolded run_Cons run_Nil])
     (simp add: step_def notify_def f)

text \<open>
  C6, on the code. In every add, update and delete pipeline (all three helper files), an
  intent that arrives while a service call is in flight is dropped: the pipeline is left
  exactly as it was, so the call in flight is not cancelled. From a fresh subscription,
  a second intent right after the first changes no run, and the service is called once.
  One outcome signal is emitted when the call delivers a value; when it fails, one
  failure signal is emitted in ngrx_helper_improved.ts whatever the error is, and in
  ngrx_helper_enhanced.ts and ngrx_generic_state_4.ts when the \<open>message\<close> of the
  error can be read. Where it cannot (the error is \<open>null\<close> or \<open>undefined\<close>),
  the \<open>catchError\<close> selector of those two files throws on \<open>error.message\<close>: no
  outcome signal is emitted, the pipeline errors and handles nothing any more.
\<close>

theorem C6_second_intent_dropped:
  "(eff \<in> {createAddEffect aa mc, createUpdateEffect ua mc, createDeleteEffect da mc,
            createAddEffect4 aa, createUpdateEffect4 ua, createDeleteEffect4 da,
            createAddEffectI aa ci, createUpdateEffectI ua ci, createDeleteEffectI da ci}
    \<longrightarrow> (inner st \<noteq> None \<longrightarrow> step eff st (Dispatch a2) = st)
      \<and> (a1 ''type'' = Some (JStr (trigger eff)) \<longrightarrow>
           run eff subscribed (Dispatch a1 # Dispatch a2 # evs) = run eff subscribed (Dispatch a1 # evs)
           \<and> length (calls (run eff subscribed [Dispatch a1, Dispatch a2])) = 1
           \<and> inner (run eff subscribed [Dispatch a1, Dispatch a2])
                = inner (run eff subscribed [Dispatch a1])
           \<and> inner (run eff subscribed [Dispatch a1]) \<noteq> None
           \<and> length (emitted (run eff subscribed
                [Dispatch a1, Dispatch a2, Notify 0 (OnNext v), Notify 0 OnComplete])) = 1
           \<and> (js_member e ''message'' \<noteq> None \<longrightarrow>
                length (emitted (run eff subscribed
                  [Dispatch a1, Dispatch a2, Notify 0 (OnError e)])) = 1)))
   \<and> (eff \<in> {createAddEffectI aa ci, createUpdateEffectI ua ci, createDeleteEffectI da ci}
       \<and> a1 ''type'' = Some (JStr (trigger eff))
    \<longrightarrow> length (emitted (run eff subscribed
            [Dispatch a1, Dispatch a2, Notify 0 (OnError e)])) = 1
       \<and> \<not> failed (run eff subscribed [Dispatch a1, Dispatch a2, Notify 0 (OnError e)]))
   \<and> (eff \<in> {createAddEffect aa mc, createUpdateEffect ua mc, createDeleteEffect da mc,
              createAddEffect4 aa, createUpdateEffect4 ua, createDeleteEffect4 da}
       \<and> a1 ''type'' = Some (JStr (trigger eff)) \<and> js_member e ''message'' = None
    \<longrightarrow> (let st' = run eff subscribed [Dispatch a1, Dispatch a2, Notify 0 (OnError e)]
         in emitted st' = [] \<and> failed st' \<and> length (calls st') = 1
            \<and> (\<forall>more. run eff st' more = st')))"
proof (intro impI conjI)
  assume m: "eff \<in> {createAddEffect aa mc, createUpdateEffect ua mc, createDeleteEffect da mc,
           createAddEffect4 aa, createUpdateEffect4 ua, createDeleteEffect4 da,
           createAddEffectI aa ci, createUpdateEffectI ua ci, createDeleteEffectI da ci}"
  note x = exhaust_family(1) [OF m] and w = exhaust_family(2) [OF m]
  show "step eff st (Dispatch a2) = st" if "inner st \<noteq> None"
    by (rule exhaust_drops [OF x that])
  assume t: "a1 ''type'' = Some (JStr (trigger eff))"
  from exhaust_family(3) [OF m, of a1 Undefined] obtain ob
    where p: "project eff a1 Undefined = Some ob"
      and f: "\<And>e. js_member e ''message'' \<noteq> None \<Longrightarrow> onFail ob e \<noteq> None" by blast
  note sc = exhaust_scenario [OF x w t p]
  have one: "run eff subscribed [Dispatch a1] =
     \<lparr>latest = None, calls = [args ob], inner = Some (0, ob), emitted = [], console = [],
      failed = False\<rparr>"
    by (simp add: run_Cons run_Nil first_dispatch [OF w t p]) (simp add: subscribed_def)
  show "run eff subscribed (Dispatch a1 # Dispatch a2 # evs) = run eff subscribed (Dispatch a1 # evs)"
    by (rule sc(1))
  show "length (calls (run eff subscribed [Dispatch a1, Dispatch a2])) = 1"
    by (simp add: sc(2))
  show "inner (run eff subscribed [Dispatch a1, Dispatch a2]) = inner (run eff subscribed [Dispatch a1])"
    by (simp add: sc(2) one)
  show "inner (run eff subscribed [Dispatch a1]) \<noteq> None"
    by (simp add: one)
  show "length (emitted (run eff subscribed
               [Dispatch a1, Dispatch a2, Notify 0 (OnNext v), Notify 0 OnComplete])) = 1"
    by (simp add: sc(3))
  show "length (emitted (run eff subscribed [Dispatch a1, Dispatch a2, Notify 0 (OnError e)])) = 1"
    if "js_member e ''message'' \<noteq> None"
  proof -
    from f [OF that] obtain sig where "onFail ob e = Some sig" by auto
    from sc(4) [OF this] show ?thesis by simp
  qed
next
  assume h: "eff \<in> {createAddEffectI aa ci, createUpdateEffectI ua ci, createDeleteEffectI da ci}
       \<and> a1 ''type'' = Some (JStr (trigger eff))"
  note m = h [THEN conjunct1] and t = h [THEN conjunct2]
  have x: "concurrency eff = ExhaustMap" and w: "withLatest eff = None"
    using m by (auto simp: effect_defs)
  from exhaust_selector_total [OF m, of a1 Undefined] obtain ob
    where p: "project eff a1 Undefined = Some ob" and tot: "\<forall>e. onFail ob e \<noteq> None"
    by blast
  from tot obtain sig where f: "onFail ob e = Some sig" by auto
  note sc = exhaust_scenario(4) [OF x w t p f]
  show "length (emitted (run eff subscribed [Dispatch a1, Dispatch a2, Notify 0 (OnError e)])) = 1"
    by (simp add: sc)
  show "\<not> failed (run eff subscribed [Dispatch a1, Dispatch a2, Notify 0 (OnError e)])"
    by (simp add: sc)
next
  assume h: "eff \<in> {createAddEffect aa mc, createUpdateEffect ua mc, createDeleteEffect da mc,
              createAddEffect4 aa, createUpdateEffect4 ua, createDeleteEffect4 da}
       \<and> a1 ''type'' = Some (JStr (trigger eff)) \<and> js_member e ''message'' = None"
  note m = h [THEN conjunct1] and t = h [THEN conjunct2, THEN conjunct1]
    and n = h [THEN conjunct2, THEN conjunct2]
  have x: "concurrency eff = ExhaustMap" and w: "withLatest eff = None"
    using m by (auto simp: effect_defs Let_def)
  from exhaust_selector_throws [OF m, of a1 Undefined] n obtain ob
    where p: "project eff a1 Undefined = Some ob" and f: "onFail ob e = None" by auto
  note sc = exhaust_scenario_throw [OF x w t p f]
  show "let st' = run eff subscribed [Dispatch a1, Dispatch a2, Notify 0 (OnError e)]
         in emitted st' = [] \<and> failed st' \<and> length (calls st') = 1
            \<and> (\<forall>more. run eff st' more = st')"
    unfolding sc Let_def by (simp add: failed_run)
qed

text \<open>
  The product add pipeline of ngrx_helper_enhanced.ts: a second add while the first is
  in flight; then the first call delivers the product, or fails with an error carrying a
  message, or fails with \<open>null\<close>. In the last run no signal is emitted, and an add
  dispatched afterwards calls no service.
\<close>

theorem C6_second_intent_dropped_witness:
  "step (createAddEffect productAdd None)
        (run (createAddEffect productAdd None) subscribed [Dispatch addPen]) (Dispatch addInk)
     = run (createAddEffect productAdd None) subscribed [Dispatch addPen]
   \<and> run (createAddEffect productAdd None) subscribed
         [Dispatch addPen, Dispatch addInk, Notify 0 (OnNext product1), Notify 0 OnComplete]
       = run (createAddEffect productAdd None) subscribed
         [Dispatch addPen, Notify 0 (OnNext product1), Notify 0 OnComplete]
   \<and> length (calls (run (createAddEffect productAdd None) subscribed
         [Dispatch addPen, Dispatch addInk])) = 1
   \<and> length (emitted (run (createAddEffect productAdd None) subscribed
         [Dispatch addPen, Dispatch addInk, Notify 0 (OnNext product1), Notify 0 OnComplete])) = 1
   \<and> length (emitted (run (createAddEffect productAdd None) subscribed
         [Dispatch addPen, Dispatch addInk, Notify 0 (OnError rejected)])) = 1
   \<and> length (emitted (run (createAddEffectI productAdd None) subscribed
         [Dispatch addPen, Dispatch addInk, Notify 0 (OnError Null)])) = 1
   \<and> emitted (run (createAddEffect productAdd None) subscribed
         [Dispatch addPen, Dispatch addInk, Notify 0 (OnError Null)]) = []
   \<and> failed (run (createAddEffect productAdd None) subscribed
         [Dispatch addPen, Dispatch addInk, Notify 0 (OnError Null)])
   \<and> run (createAddEffect productAdd None) subscribed
         ([Dispatch addPen, Dispatch addInk, Notify 0 (OnError Null)] @ [Dispatch addInk])
       = run (createAddEffect productAdd None) subscribed
         [Dispatch addPen, Dispatch addInk, Notify 0 (OnError Null)]"
proof -
  let ?eff = "createAddEffect productAdd None"
  let ?effI = "createAddEffectI productAdd None"
  have m: "?eff \<in> {createAddEffect productAdd None, createUpdateEffect ua None,
           createDeleteEffect da None,
           createAddEffect4 productAdd, createUpdateEffect4 ua, createDeleteEffect4 da,
           createAddEffectI productAdd ci, createUpdateEffectI ua ci, createDeleteEffectI da ci}"
    for ua da ci by simp
  have t: "addPen ''type'' = Some (JStr (trigger ?eff))"
    by (simp add: addPen_def create_def createAddEffect_def Let_def productAdd_def)
  have tI: "addPen ''type'' = Some (JStr (trigger ?effI))"
    by (simp add: addPen_def create_def createAddEffectI_def productAdd_def)
  have e: "js_member rejected ''message'' \<noteq> None" by (simp add: rejected_def)
  note c = C6_second_intent_dropped [where eff="?eff" and aa=productAdd and mc=None
      and st="run ?eff subscribed [Dispatch addPen]" and ?a2.0=addInk and ?a1.0=addPen
      and evs="[Notify 0 (OnNext product1), Notify 0 OnComplete]" and v=product1 and e=rejected,
      THEN conjunct1]
  note cI = C6_second_intent_dropped [where eff="?effI" and aa=productAdd and ci=None
      and ?a2.0=addInk and ?a1.0=addPen and e=Null, THEN conjunct2, THEN conjunct1]
  note cN = C6_second_intent_dropped [where eff="?eff" and aa=productAdd and mc=None
      and ?a2.0=addInk and ?a1.0=addPen and e=Null, THEN conjunct2, THEN conjunct2,
      unfolded Let_def]
  from c m t e have 1: "step ?eff (run ?eff subscribed [Dispatch addPen]) (Dispatch addInk)
     = run ?eff subscribed [Dispatch addPen]
   \<and> run ?eff subscribed
         [Dispatch addPen, Dispatch addInk, Notify 0 (OnNext product1), Notify 0 OnComplete]
       = run ?eff subscribed [Dispatch addPen, Notify 0 (OnNext product1), Notify 0 OnComplete]
   \<and> length (calls (run ?eff subscribed [Dispatch addPen, Dispatch addInk])) = 1
   \<and> length (emitted (run ?eff subscribed
         [Dispatch addPen, Dispatch addInk, Notify 0 (OnNext product1), Notify 0 OnComplete])) = 1
   \<and> length (emitted (run ?eff subscribed
         [Dispatch addPen, Dispatch addInk, Notify 0 (OnError rejected)])) = 1"
    by auto
  from cI tI have 2: "length (emitted (run ?effI subscribed
         [Dispatch addPen, Dispatch addInk, Notify 0 (OnError Null)])) = 1"
    by simp
  from cN t have 3: "emitted (run ?eff subscribed
         [Dispatch addPen, Dispatch addInk, Notify 0 (OnError Null)]) = []
   \<and> failed (run ?eff subscribed [Dispatch addPen, Dispatch addInk, Notify 0 (OnError Null)])
   \<and> (\<forall>more. run ?eff (run ?eff subscribed
           [Dispatch addPen, Dispatch addInk, Notify 0 (OnError Null)]) more
         = run ?eff subscribed [Dispatch addPen, Dispatch addInk, Notify 0 (OnError Null)])"
    by simp
  from 1 2 3 show ?thesis unfolding run_append by blast
qed

lemma default_reduce_load_success:
  assumes created: "createDefaultReducerHandlers cfg = Some hs"
    and d: "distinct_types (actions cfg)"
  shows
    "actions cfg ''load'' = Some ti \<Longrightarrow> actions cfg ''loadSuccess'' = Some t \<Longrightarrow>
       createImmerReducer init hs (Some s) (create t p) =
         s(stateKey cfg \<mapsto> JObj ((spread (field s (stateKey cfg)))
             (''data'' \<mapsto> field p ''data'', ''isLoading'' \<mapsto> JBool False, ''error'' \<mapsto> Null)))"
  unfolding createImmerReducer_eq reduce_create
    blocks_handlers_for [OF created [unfolded createDefaultReducerHandlers_def Let_def]]
  using blocks_all_Some [OF created [unfolded createDefaultReducerHandlers_def Let_def], simplified]
  by (simp_all add: push_if_handlers_for [OF d] apply_all_def field_create)

lemma switch_family:
  assumes "eff \<in> {createLoadEffect acts store selector mc, createLoadEffect4 acts,
                  createLoadEffectI acts ci}"
  shows "concurrency eff = SwitchMap" "trigger eff = load acts"
  using assms by (auto simp: effect_defs Let_def)

lemma load_twice:
  assumes "(eff, out) \<in>
     {(createLoadEffect acts False selector mc,
       [create (loadSuccess acts)
          [''data'' \<mapsto> v2,
           ''message'' \<mapsto> JStr (configured mc successMessage ''Data loaded successfully'')]]),
      (createLoadEffect acts store None mc,
       [create (loadSuccess acts)
          [''data'' \<mapsto> v2,
           ''message'' \<mapsto> JStr (configured mc successMessage ''Data loaded successfully'')]]),
      (createLoadEffect4 acts, [create (loadSuccess acts) [''data'' \<mapsto> v2]]),
      (createLoadEffectI acts ci, [create (loadSuccess acts) [''data'' \<mapsto> v2]])}"
  shows "emitted (run eff subscribed
           [Dispatch (create (load acts) p1), Dispatch (create (load acts) p2),
            Notify 0 (OnNext v1), Notify 1 (OnNext v2)]) = out"
    and "emitted (run eff subscribed
           [Dispatch (create (load acts) p1), Dispatch (create (load acts) p2),
            Notify 1 (OnNext v2), Notify 0 (OnNext v1)]) = out"
    and "calls (run eff subscribed
           [Dispatch (create (load acts) p1), Dispatch (create (load acts) p2),
            Notify 0 (OnNext v1), Notify 1 (OnNext v2)])
         = [[field p1 ''params''], [field p2 ''params'']]"
  using assms
  by (elim insertE emptyE;
      simp add: run_Cons run_Nil step_def dispatch_def flatten_def start_def notify_def
        subscribed_def createLoadEffect_def createLoadEffect4_def createLoadEffectI_def
        Let_def create_def field_def)+

lemma with_store:
  "createLoadEffect acts True (Some selector) mc =
     \<lparr>trigger = load acts, concurrency = SwitchMap, withLatest = Some selector,
      project = project (createLoadEffect acts True (Some selector) mc)\<rparr>"
  by (simp add: createLoadEffect_def Let_def)

lemma with_store_project:
  "project (createLoadEffect acts True (Some selector) mc) a v =
     (if opt_member v ''data'' \<noteq> Null \<and> \<not> truthy (field a ''forceReload'') then None
      else project (createLoadEffect acts False None mc) a v)"
  "args (the (project (createLoadEffect acts False None mc) a v)) = [field a ''params'']"
  "project (createLoadEffect acts False None mc) a v \<noteq> None"
  by (simp_all add: createLoadEffect_def Let_def)

lemma load_twice_store:
  assumes e: "eff = createLoadEffect acts True (Some sel) mc"
    and c1: "opt_member (sel s1) ''data'' = Null \<or> truthy (field (create (load acts) p1) ''forceReload'')"
    and c2: "opt_member (sel s2) ''data'' = Null \<or> truthy (field (create (load acts) p2) ''forceReload'')"
    and o: "out = [create (loadSuccess acts)
                  [''data'' \<mapsto> v2,
                   ''message'' \<mapsto> JStr (configured mc successMessage ''Data loaded successfully'')]]"
  shows "emitted (run eff subscribed
           [StoreState s1, Dispatch (create (load acts) p1),
            StoreState s2, Dispatch (create (load acts) p2),
            Notify 0 (OnNext v1), Notify 1 (OnNext v2)]) = out"
    and "emitted (run eff subscribed
           [StoreState s1, Dispatch (create (load acts) p1),
            StoreState s2, Dispatch (create (load acts) p2),
            Notify 1 (OnNext v2), Notify 0 (OnNext v1)]) = out"
    and "calls (run eff subscribed
           [StoreState s1, Dispatch (create (load acts) p1),
            StoreState s2, Dispatch (create (load acts) p2),
            Notify 0 (OnNext v1), Notify 1 (OnNext v2)])
         = [[field p1 ''params''], [field p2 ''params'']]"
proof -
  have t: "create (load acts) p ''type'' = Some (JStr (load acts))" for p
    by (simp add: create_def)
  have f: "field (create (load acts) p) ''params'' = field p ''params''" for p
    by (simp add: field_create)
  have p1: "project eff (create (load acts) p1) (sel s1)
              = project (createLoadEffect acts False None mc) (create (load acts) p1) (sel s1)"
    and p2: "project eff (create (load acts) p2) (sel s2)
              = project (createLoadEffect acts False None mc) (create (load acts) p2) (sel s2)"
    unfolding e with_store_project(1) using c1 c2 by auto
  have w: "trigger eff = load acts" "concurrency eff = SwitchMap" "withLatest eff = Some sel"
    by (simp_all add: e createLoadEffect_def Let_def)
  have q: "project (createLoadEffect acts False None mc) a v = Some
      \<lparr>args = [field a ''params''],
       onValue = (\<lambda>data. (create (loadSuccess acts)
          [''data'' \<mapsto> data,
           ''message'' \<mapsto> JStr (configured mc successMessage ''Data loaded successfully'')], [])),
       onFail = (\<lambda>error. message_or error (configured mc failureMessage ''Load failed'')
          (\<lambda>m. create (loadFailure acts) [''error'' \<mapsto> m]))\<rparr>" for a v
    by (simp add: createLoadEffect_def Let_def)
  show "emitted (run eff subscribed
           [StoreState s1, Dispatch (create (load acts) p1),
            StoreState s2, Dispatch (create (load acts) p2),
            Notify 0 (OnNext v1), Notify 1 (OnNext v2)]) = out"
    by (simp add: run_Cons run_Nil step_def dispatch_def flatten_def start_def notify_def
        subscribed_def w t p1 p2 q f o)
  show "emitted (run eff subscribed
           [StoreState s1, Dispatch (create (load acts) p1),
            StoreState s2, Dispatch (create (load acts) p2),
            Notify 1 (OnNext v2), Notify 0 (OnNext v1)]) = out"
    by (simp add: run_Cons run_Nil step_def dispatch_def flatten_def start_def notify_def
        subscribed_def w t p1 p2 q f o)
  show "calls (run eff subscribed
           [StoreState s1, Dispatch (create (load acts) p1),
            StoreState s2, Dispatch (create (load acts) p2),
            Notify 0 (OnNext v1), Notify 1 (OnNext v2)])
         = [[field p1 ''params''], [field p2 ''params'']]"
    by (simp add: run_Cons run_Nil step_def dispatch_def flatten_def start_def notify_def
        subscribed_def w t p1 p2 q f o)
qed

lemma load_twice_reduced:
  assumes c: "createDefaultReducerHandlers cfg = Some hs" and d: "distinct_types (actions cfg)"
    and l: "actions cfg ''load'' = Some (load acts)"
    and ls: "actions cfg ''loadSuccess'' = Some (loadSuccess acts)"
    and o: "field q ''data'' = v2"
  shows "let final = reduce_all (createImmerReducer init hs) s
                   [create (load acts) p1, create (load acts) p2, create (loadSuccess acts) q]
         in js_member (field final (stateKey cfg)) ''data'' = Some v2
            \<and> js_member (field final (stateKey cfg)) ''isLoading'' = Some (JBool False)
            \<and> js_member (field final (stateKey cfg)) ''error'' = Some Null"
  unfolding reduce_all_def Let_def
  by (simp add: default_reduce_intent(1) [OF c d l] default_reduce_load_success [OF c d l ls]
      field_upd o)

lemma product_load_signals:
  "loadAll = create (load productLoad) Map.empty"
  "reload = create (load productLoad) [''forceReload'' \<mapsto> JBool True]"
  "reload ''type'' = Some (JStr (load productLoad))"
  by (simp_all add: loadAll_def reload_def productLoad_def create_def)

lemma product_first_load:
  "\<not> failed (run (createLoadEffect productLoad False None None) subscribed [Dispatch loadAll])"
  "length (calls (run (createLoadEffect productLoad False None None) subscribed [Dispatch loadAll])) = 1"
  by (simp_all add: run_Cons run_Nil step_def dispatch_def flatten_def start_def
      subscribed_def createLoadEffect_def Let_def loadAll_def create_def field_def productLoad_def)

text \<open>
  C7, the case it does not cover. The load pipeline of ngrx_helper_enhanced.ts built
  with a store and a selector returns \<open>EMPTY\<close> for a load it skips, and
  \<open>switchMap\<close> switches to it like to any other inner Observable. With product data
  in the store, a forced reload is in flight when a plain load arrives: the reload is
  cancelled, the plain load is skipped, the service has been called once, and the late
  result of that call is discarded. No outcome signal is emitted for either intent;
  reducing the two intents leaves \<open>isLoading\<close> true and the old \<open>data\<close>.
\<close>

theorem C7_skipped_load_counterexample:
  "(let eff = createLoadEffect productLoad True (Some selectProducts) None;
        st = run eff subscribed [StoreState appState, Dispatch reload, Dispatch loadAll]
    in calls st = [[Undefined]] \<and> inner st = None \<and> emitted st = [] \<and> \<not> failed st
       \<and> run eff st [Notify 0 (OnNext (JArr [product2])), Notify 0 OnComplete] = st)
   \<and> (case createDefaultReducerHandlers productConfig of
         None \<Rightarrow> False
       | Some hs \<Rightarrow>
           (let final = reduce_all (createImmerReducer initialAppState hs) appState
                          [reload, loadAll]
            in js_member (field final ''products'') ''isLoading'' = Some (JBool True)
               \<and> js_member (field final ''products'') ''data'' = Some (JArr [product1])))"
proof -
  define eff where "eff = createLoadEffect productLoad True (Some selectProducts) None"
  have w: "trigger eff = ''[Product] Load''" "concurrency eff = SwitchMap"
    "withLatest eff = Some selectProducts"
    by (simp_all add: eff_def createLoadEffect_def Let_def productLoad_def)
  have sd: "opt_member (selectProducts appState) ''data'' = JArr [product1]"
    by (simp add: selectProducts_def appState_products_data)
  have f: "truthy (field reload ''forceReload'')" "\<not> truthy (field loadAll ''forceReload'')"
    "field reload ''params'' = Undefined"
    by (simp_all add: reload_def loadAll_def create_def field_def)
  have t: "reload ''type'' = Some (JStr ''[Product] Load'')"
    "loadAll ''type'' = Some (JStr ''[Product] Load'')"
    by (simp_all add: reload_def loadAll_def create_def)
  obtain ob where ob: "project eff reload (selectProducts appState) = Some ob"
    "args ob = [Undefined]"
    using with_store_project(2,3) [of productLoad None reload "selectProducts appState"]
    by (auto simp: eff_def with_store_project(1) f)
  have p2: "project eff loadAll (selectProducts appState) = None"
    by (simp add: eff_def with_store_project(1) sd f)
  have r: "run eff subscribed [StoreState appState, Dispatch reload, Dispatch loadAll] =
      \<lparr>latest = Some (selectProducts appState), calls = [[Undefined]], inner = None,
       emitted = [], console = [], failed = False\<rparr>"
    by (simp add: run_Cons run_Nil step_def dispatch_def flatten_def start_def subscribed_def
        w t ob p2)
  have 1: "let eff = createLoadEffect productLoad True (Some selectProducts) None;
        st = run eff subscribed [StoreState appState, Dispatch reload, Dispatch loadAll]
    in calls st = [[Undefined]] \<and> inner st = None \<and> emitted st = [] \<and> \<not> failed st
       \<and> run eff st [Notify 0 (OnNext (JArr [product2])), Notify 0 OnComplete] = st"
    unfolding Let_def eff_def [symmetric] r
    by (simp add: run_Cons run_Nil step_def notify_def)
  have a: "actions productConfig = createCrudActions ''Product''"
    and k: "stateKey productConfig = ''products''"
    by (simp_all add: productConfig_def)
  from default_handlers_crud [OF a]
  obtain hs where hs: "createDefaultReducerHandlers productConfig = Some hs" by auto
  have d: "distinct_types (actions productConfig)" by (simp add: a distinct_crud)
  have l: "actions productConfig ''load'' = Some (load productLoad)"
    by (simp add: a crud_lookup productLoad_def)
  have 2: "let final = reduce_all (createImmerReducer initialAppState hs) appState
                          [reload, loadAll]
            in js_member (field final ''products'') ''isLoading'' = Some (JBool True)
               \<and> js_member (field final ''products'') ''data'' = Some (JArr [product1])"
    unfolding reduce_all_def Let_def product_load_signals(1,2)
    by (simp add: default_reduce_intent(1) [OF hs d l] field_upd k)
       (simp add: appState_def field_def createDefaultState_def)
  from 1 2 show ?thesis by (simp add: hs)
qed

text \<open>
  C7, amended. In every load pipeline (both branches of ngrx_helper_enhanced.ts,
  ngrx_generic_state_4.ts, ngrx_helper_improved.ts), a load intent that gets through
  while an earlier call is in flight supersedes it: from then on the pipeline is past
  every earlier call, a notification of an earlier call leaves it as it is, and a run
  continues as if those notifications had never come. When the second of two load
  intents calls the service (always, in a pipeline without a store or without a
  selector and in the other two files; with a store and a selector, when the selected
  \<open>data\<close> is null or the intent's \<open>forceReload\<close> is truthy), the service has been
  called twice, and whichever call answers first, the one signal emitted is the
  pipeline's own success signal for the value of the second call. Reducing the two
  intents and that signal leaves the second call's value as \<open>data\<close>, with
  \<open>isLoading\<close> false and \<open>error\<close> null. (For the pipeline with a store, getting
  through means the store has emitted; a pipeline that has errored handles nothing any
  more.)
\<close>

theorem C7_new_load_supersedes:
  "(eff \<in> {createLoadEffect acts store selector mc, createLoadEffect4 acts,
            createLoadEffectI acts ci}
      \<and> \<not> failed st \<and> a ''type'' = Some (JStr (load acts))
      \<and> (withLatest eff \<noteq> None \<longrightarrow> latest st \<noteq> None)
    \<longrightarrow> (let st' = step eff st (Dispatch a)
         in past (length (calls st)) st'
            \<and> (\<forall>k x. k < length (calls st) \<longrightarrow> step eff st' (Notify k x) = st')
            \<and> run eff st' evs = run eff st' (filter (\<lambda>ev. \<not> stale (length (calls st)) ev) evs)))
   \<and> ((eff1, out) \<in>
         {(createLoadEffect acts False selector mc,
           [create (loadSuccess acts)
              [''data'' \<mapsto> v2,
               ''message'' \<mapsto> JStr (configured mc successMessage ''Data loaded successfully'')]]),
          (createLoadEffect acts store None mc,
           [create (loadSuccess acts)
              [''data'' \<mapsto> v2,
               ''message'' \<mapsto> JStr (configured mc successMessage ''Data loaded successfully'')]]),
          (createLoadEffect4 acts, [create (loadSuccess acts) [''data'' \<mapsto> v2]]),
          (createLoadEffectI acts ci, [create (loadSuccess acts) [''data'' \<mapsto> v2]])}
    \<longrightarrow> emitted (run eff1 subscribed
           [Dispatch (create (load acts) p1), Dispatch (create (load acts) p2),
            Notify 0 (OnNext v1), Notify 1 (OnNext v2)]) = out
       \<and> emitted (run eff1 subscribed
           [Dispatch (create (load acts) p1), Dispatch (create (load acts) p2),
            Notify 1 (OnNext v2), Notify 0 (OnNext v1)]) = out
       \<and> calls (run eff1 subscribed
           [Dispatch (create (load acts) p1), Dispatch (create (load acts) p2),
            Notify 0 (OnNext v1), Notify 1 (OnNext v2)])
         = [[field p1 ''params''], [field p2 ''params'']])
   \<and> ((opt_member (sel s1) ''data'' = Null \<or> truthy (field (create (load acts) p1) ''forceReload''))
       \<and> (opt_member (sel s2) ''data'' = Null \<or> truthy (field (create (load acts) p2) ''forceReload''))
    \<longrightarrow> (let effS = createLoadEffect acts True (Some sel) mc;
             outS = [create (loadSuccess acts)
                       [''data'' \<mapsto> v2,
                        ''message'' \<mapsto> JStr (configured mc successMessage ''Data loaded successfully'')]]
         in emitted (run effS subscribed
              [StoreState s1, Dispatch (create (load acts) p1),
               StoreState s2, Dispatch (create (load acts) p2),
               Notify 0 (OnNext v1), Notify 1 (OnNext v2)]) = outS
            \<and> emitted (run effS subscribed
              [StoreState s1, Dispatch (create (load acts) p1),
               StoreState s2, Dispatch (create (load acts) p2),
               Notify 1 (OnNext v2), Notify 0 (OnNext v1)]) = outS
            \<and> calls (run effS subscribed
              [StoreState s1, Dispatch (create (load acts) p1),
               StoreState s2, Dispatch (create (load acts) p2),
               Notify 0 (OnNext v1), Notify 1 (OnNext v2)])
              = [[field p1 ''params''], [field p2 ''params'']]))
   \<and> (createDefaultReducerHandlers cfg = Some hs \<and> distinct_types (actions cfg)
       \<and> actions cfg ''load'' = Some (load acts)
       \<and> actions cfg ''loadSuccess'' = Some (loadSuccess acts)
       \<and> q \<in> {[''data'' \<mapsto> v2,
                ''message'' \<mapsto> JStr (configured mc successMessage ''Data loaded successfully'')],
               [''data'' \<mapsto> v2]}
    \<longrightarrow> (let final = reduce_all (createImmerReducer init hs) s
                   [create (load acts) p1, create (load acts) p2, create (loadSuccess acts) q]
         in js_member (field final (stateKey cfg)) ''data'' = Some v2
            \<and> js_member (field final (stateKey cfg)) ''isLoading'' = Some (JBool False)
            \<and> js_member (field final (stateKey cfg)) ''error'' = Some Null))"
proof (intro conjI)
  show "eff \<in> {createLoadEffect acts store selector mc, createLoadEffect4 acts,
            createLoadEffectI acts ci}
      \<and> \<not> failed st \<and> a ''type'' = Some (JStr (load acts))
      \<and> (withLatest eff \<noteq> None \<longrightarrow> latest st \<noteq> None)
    \<longrightarrow> (let st' = step eff st (Dispatch a)
         in past (length (calls st)) st'
            \<and> (\<forall>k x. k < length (calls st) \<longrightarrow> step eff st' (Notify k x) = st')
            \<and> run eff st' evs = run eff st' (filter (\<lambda>ev. \<not> stale (length (calls st)) ev) evs))"
  proof
    assume h: "eff \<in> {createLoadEffect acts store selector mc, createLoadEffect4 acts,
            createLoadEffectI acts ci}
      \<and> \<not> failed st \<and> a ''type'' = Some (JStr (load acts))
      \<and> (withLatest eff \<noteq> None \<longrightarrow> latest st \<noteq> None)"
    then have m: "eff \<in> {createLoadEffect acts store selector mc, createLoadEffect4 acts,
            createLoadEffectI acts ci}" by simp
    from h have "a ''type'' = Some (JStr (trigger eff))" by (simp add: switch_family(2) [OF m])
    with h have p: "past (length (calls st)) (step eff st (Dispatch a))"
      by (intro switch_supersedes [OF switch_family(1) [OF m]]) simp_all
    have "step eff (step eff st (Dispatch a)) (Notify k x) = step eff st (Dispatch a)"
      if "k < length (calls st)" for k x
      by (rule stale_ignored [OF p]) (simp add: stale_def that)
    with p run_filter_stale [OF p, of eff evs]
    show "let st' = step eff st (Dispatch a)
         in past (length (calls st)) st'
            \<and> (\<forall>k x. k < length (calls st) \<longrightarrow> step eff st' (Notify k x) = st')
            \<and> run eff st' evs = run eff st' (filter (\<lambda>ev. \<not> stale (length (calls st)) ev) evs)"
      by (simp add: Let_def)
  qed
next
  show "(eff1, out) \<in>
         {(createLoadEffect acts False selector mc,
           [create (loadSuccess acts)
              [''data'' \<mapsto> v2,
               ''message'' \<mapsto> JStr (configured mc successMessage ''Data loaded successfully'')]]),
          (createLoadEffect acts store None mc,
           [create (loadSuccess acts)
              [''data'' \<mapsto> v2,
               ''message'' \<mapsto> JStr (configured mc successMessage ''Data loaded successfully'')]]),
          (createLoadEffect4 acts, [create (loadSuccess acts) [''data'' \<mapsto> v2]]),
          (createLoadEffectI acts ci, [create (loadSuccess acts) [''data'' \<mapsto> v2]])}
    \<longrightarrow> emitted (run eff1 subscribed
           [Dispatch (create (load acts) p1), Dispatch (create (load acts) p2),
            Notify 0 (OnNext v1), Notify 1 (OnNext v2)]) = out
       \<and> emitted (run eff1 subscribed
           [Dispatch (create (load acts) p1), Dispatch (create (load acts) p2),
            Notify 1 (OnNext v2), Notify 0 (OnNext v1)]) = out
       \<and> calls (run eff1 subscribed
           [Dispatch (create (load acts) p1), Dispatch (create (load acts) p2),
            Notify 0 (OnNext v1), Notify 1 (OnNext v2)])
         = [[field p1 ''params''], [field p2 ''params'']]"
  proof (intro impI conjI)
    assume m: "(eff1, out) \<in>
         {(createLoadEffect acts False selector mc,
           [create (loadSuccess acts)
              [''data'' \<mapsto> v2,
               ''message'' \<mapsto> JStr (configured mc successMessage ''Data loaded successfully'')]]),
          (createLoadEffect acts store None mc,
           [create (loadSuccess acts)
              [''data'' \<mapsto> v2,
               ''message'' \<mapsto> JStr (configured mc successMessage ''Data loaded successfully'')]]),
          (createLoadEffect4 acts, [create (loadSuccess acts) [''data'' \<mapsto> v2]]),
          (createLoadEffectI acts ci, [create (loadSuccess acts) [''data'' \<mapsto> v2]])}"
    show "emitted (run eff1 subscribed
           [Dispatch (create (load acts) p1), Dispatch (create (load acts) p2),
            Notify 0 (OnNext v1), Notify 1 (OnNext v2)]) = out"
      by (rule load_twice(1) [OF m])
    show "emitted (run eff1 subscribed
           [Dispatch (create (load acts) p1), Dispatch (create (load acts) p2),
            Notify 1 (OnNext v2), Notify 0 (OnNext v1)]) = out"
      by (rule load_twice(2) [OF m])
    show "calls (run eff1 subscribed
           [Dispatch (create (load acts) p1), Dispatch (create (load acts) p2),
            Notify 0 (OnNext v1), Notify 1 (OnNext v2)])
         = [[field p1 ''params''], [field p2 ''params'']]"
      by (rule load_twice(3) [OF m])
  qed
next
  show "(opt_member (sel s1) ''data'' = Null \<or> truthy (field (create (load acts) p1) ''forceReload''))
       \<and> (opt_member (sel s2) ''data'' = Null \<or> truthy (field (create (load acts) p2) ''forceReload''))
    \<longrightarrow> (let effS = createLoadEffect acts True (Some sel) mc;
             outS = [create (loadSuccess acts)
                       [''data'' \<mapsto> v2,
                        ''message'' \<mapsto> JStr (configured mc successMessage ''Data loaded successfully'')]]
         in emitted (run effS subscribed
              [StoreState s1, Dispatch (create (load acts) p1),
               StoreState s2, Dispatch (create (load acts) p2),
               Notify 0 (OnNext v1), Notify 1 (OnNext v2)]) = outS
            \<and> emitted (run effS subscribed
              [StoreState s1, Dispatch (create (load acts) p1),
               StoreState s2, Dispatch (create (load acts) p2),
               Notify 1 (OnNext v2), Notify 0 (OnNext v1)]) = outS
            \<and> calls (run effS subscribed
              [StoreState s1, Dispatch (create (load acts) p1),
               StoreState s2, Dispatch (create (load acts) p2),
               Notify 0 (OnNext v1), Notify 1 (OnNext v2)])
              = [[field p1 ''params''], [field p2 ''params'']])"
    unfolding Let_def
  proof (intro impI conjI)
    assume h: "(opt_member (sel s1) ''data'' = Null \<or> truthy (field (create (load acts) p1) ''forceReload''))
       \<and> (opt_member (sel s2) ''data'' = Null \<or> truthy (field (create (load acts) p2) ''forceReload''))"
    note lt = load_twice_store [OF refl h [THEN conjunct1] h [THEN conjunct2] refl]
    show "emitted (run (createLoadEffect acts True (Some sel) mc) subscribed
              [StoreState s1, Dispatch (create (load acts) p1),
               StoreState s2, Dispatch (create (load acts) p2),
               Notify 0 (OnNext v1), Notify 1 (OnNext v2)])
          = [create (loadSuccess acts)
               [''data'' \<mapsto> v2,
                ''message'' \<mapsto> JStr (configured mc successMessage ''Data loaded successfully'')]]"
      by (rule lt(1))
    show "emitted (run (createLoadEffect acts True (Some sel) mc) subscribed
              [StoreState s1, Dispatch (create (load acts) p1),
               StoreState s2, Dispatch (create (load acts) p2),
               Notify 1 (OnNext v2), Notify 0 (OnNext v1)])
          = [create (loadSuccess acts)
               [''data'' \<mapsto> v2,
                ''message'' \<mapsto> JStr (configured mc successMessage ''Data loaded successfully'')]]"
      by (rule lt(2))
    show "calls (run (createLoadEffect acts True (Some sel) mc) subscribed
              [StoreState s1, Dispatch (create (load acts) p1),
               StoreState s2, Dispatch (create (load acts) p2),
               Notify 0 (OnNext v1), Notify 1 (OnNext v2)])
              = [[field p1 ''params''], [field p2 ''params'']]"
      by (rule lt(3))
  qed
next
  show "createDefaultReducerHandlers cfg = Some hs \<and> distinct_types (actions cfg)
       \<and> actions cfg ''load'' = Some (load acts)
       \<and> actions cfg ''loadSuccess'' = Some (loadSuccess acts)
       \<and> q \<in> {[''data'' \<mapsto> v2,
                ''message'' \<mapsto> JStr (configured mc successMessage ''Data loaded successfully'')],
               [''data'' \<mapsto> v2]}
    \<longrightarrow> (let final = reduce_all (createImmerReducer init hs) s
                   [create (load acts) p1, create (load acts) p2, create (loadSuccess acts) q]
         in js_member (field final (stateKey cfg)) ''data'' = Some v2
            \<and> js_member (field final (stateKey cfg)) ''isLoading'' = Some (JBool False)
            \<and> js_member (field final (stateKey cfg)) ''error'' = Some Null)"
  proof
    assume h: "createDefaultReducerHandlers cfg = Some hs \<and> distinct_types (actions cfg)
       \<and> actions cfg ''load'' = Some (load acts)
       \<and> actions cfg ''loadSuccess'' = Some (loadSuccess acts)
       \<and> q \<in> {[''data'' \<mapsto> v2,
                ''message'' \<mapsto> JStr (configured mc successMessage ''Data loaded successfully'')],
               [''data'' \<mapsto> v2]}"
    note c = h [THEN conjunct1]
      and d = h [THEN conjunct2, THEN conjunct1]
      and l = h [THEN conjunct2, THEN conjunct2, THEN conjunct1]
      and ls = h [THEN conjunct2, THEN conjunct2, THEN conjunct2, THEN conjunct1]
      and m = h [THEN conjunct2, THEN conjunct2, THEN conjunct2, THEN conjunct2]
    from m have o: "field q ''data'' = v2"
      by (elim insertE emptyE) (simp_all add: field_def)
    show "let final = reduce_all (createImmerReducer init hs) s
                   [create (load acts) p1, create (load acts) p2, create (loadSuccess acts) q]
         in js_member (field final (stateKey cfg)) ''data'' = Some v2
            \<and> js_member (field final (stateKey cfg)) ''isLoading'' = Some (JBool False)
            \<and> js_member (field final (stateKey cfg)) ''error'' = Some Null"
      by (rule load_twice_reduced [OF c d l ls o])
  qed
qed

text \<open>
  Two product loads in a row, the second a forced reload: without a store, in
  ngrx_generic_state_4.ts, and with the store holding product data (both loads forced).
\<close>

theorem C7_new_load_supersedes_witness:
  "(let eff = createLoadEffect productLoad False None None;
        st' = step eff (run eff subscribed [Dispatch loadAll]) (Dispatch reload)
    in step eff st' (Notify 0 (OnNext (JArr [product1]))) = st'
       \<and> run eff st' [Notify 0 (OnNext (JArr [product1])), Notify 1 (OnNext (JArr [product2]))]
            = run eff st' [Notify 1 (OnNext (JArr [product2]))])
   \<and> emitted (run (createLoadEffect productLoad False None None) subscribed
        [Dispatch loadAll, Dispatch reload,
         Notify 0 (OnNext (JArr [product1])), Notify 1 (OnNext (JArr [product2]))])
      = [create ''[Product] Load Success''
           [''data'' \<mapsto> JArr [product2], ''message'' \<mapsto> JStr ''Data loaded successfully'']]
   \<and> emitted (run (createLoadEffect4 productLoad) subscribed
        [Dispatch loadAll, Dispatch reload,
         Notify 1 (OnNext (JArr [product2])), Notify 0 (OnNext (JArr [product1]))])
      = [create ''[Product] Load Success'' [''data'' \<mapsto> JArr [product2]]]
   \<and> emitted (run (createLoadEffect productLoad True (Some selectProducts) None) subscribed
        [StoreState appState, Dispatch reload, StoreState appState, Dispatch reload,
         Notify 0 (OnNext (JArr [product1])), Notify 1 (OnNext (JArr [product2]))])
      = [create ''[Product] Load Success''
           [''data'' \<mapsto> JArr [product2], ''message'' \<mapsto> JStr ''Data loaded successfully'']]
   \<and> (case createDefaultReducerHandlers productConfig of
         None \<Rightarrow> False
       | Some hs \<Rightarrow>
           js_member (field (reduce_all (createImmerReducer initialAppState hs) appState
               [loadAll, reload,
                create ''[Product] Load Success''
                  [''data'' \<mapsto> JArr [product2], ''message'' \<mapsto> JStr ''Data loaded successfully'']])
             ''products'') ''data'' = Some (JArr [product2]))"
proof -
  let ?eff = "createLoadEffect productLoad False None None"
  let ?st = "run ?eff subscribed [Dispatch loadAll]"
  have a: "actions productConfig = createCrudActions ''Product''"
    and k: "stateKey productConfig = ''products''"
    by (simp_all add: productConfig_def)
  from default_handlers_crud [OF a]
  obtain hs where hs: "createDefaultReducerHandlers productConfig = Some hs" by auto
  have d: "distinct_types (actions productConfig)" by (simp add: a distinct_crud)
  have l: "actions productConfig ''load'' = Some (load productLoad)"
    "actions productConfig ''loadSuccess'' = Some (loadSuccess productLoad)"
    by (simp_all add: a crud_lookup productLoad_def)
  have w: "withLatest ?eff = None" by (simp add: createLoadEffect_def Let_def)
  have c: "configured None successMessage ''Data loaded successfully'' = ''Data loaded successfully''"
    by (simp add: configured_def)
  have ls: "loadSuccess productLoad = ''[Product] Load Success''" by (simp add: productLoad_def)
  have s1: "stale 1 (Notify 0 (OnNext (JArr [product1])))"
    "\<not> stale 1 (Notify 1 (OnNext (JArr [product2])))" by (simp_all add: stale_def)
  have fr: "truthy (field (create (load productLoad) [''forceReload'' \<mapsto> JBool True]) ''forceReload'')"
    by (simp add: field_def create_def)
  note t = C7_new_load_supersedes [where eff="?eff" and acts=productLoad and store=False
      and selector=None and mc=None and ci=None and st="?st" and a=reload
      and evs="[Notify 0 (OnNext (JArr [product1])), Notify 1 (OnNext (JArr [product2]))]"
      and ?p1.0=Map.empty and ?p2.0="[''forceReload'' \<mapsto> JBool True]"
      and ?v1.0="JArr [product1]" and ?v2.0="JArr [product2]"
      and ?eff1.0="?eff"
      and out="[create ''[Product] Load Success''
           [''data'' \<mapsto> JArr [product2], ''message'' \<mapsto> JStr ''Data loaded successfully'']]"
      and q="[''data'' \<mapsto> JArr [product2],
              ''message'' \<mapsto> JStr (configured None successMessage ''Data loaded successfully'')]"
      and cfg=productConfig and hs=hs and init=initialAppState and s=appState]
  note t4 = C7_new_load_supersedes [where acts=productLoad and store=False
      and selector=None and mc=None and ci=None
      and ?p1.0=Map.empty and ?p2.0="[''forceReload'' \<mapsto> JBool True]"
      and ?v1.0="JArr [product1]" and ?v2.0="JArr [product2]"
      and ?eff1.0="createLoadEffect4 productLoad"
      and out="[create ''[Product] Load Success'' [''data'' \<mapsto> JArr [product2]]]",
      THEN conjunct2, THEN conjunct1, THEN mp, THEN conjunct2, THEN conjunct1]
  note tS = C7_new_load_supersedes [where acts=productLoad and mc=None
      and ?p1.0="[''forceReload'' \<mapsto> JBool True]" and ?p2.0="[''forceReload'' \<mapsto> JBool True]"
      and ?v1.0="JArr [product1]" and ?v2.0="JArr [product2]"
      and sel=selectProducts and ?s1.0=appState and ?s2.0=appState,
      THEN conjunct2, THEN conjunct2, THEN conjunct1, unfolded Let_def, THEN mp,
      OF conjI [OF disjI2 [OF fr] disjI2 [OF fr]], THEN conjunct1]
  note tA = t [THEN conjunct1, unfolded Let_def]
  from tA have 1: "step ?eff (step ?eff ?st (Dispatch reload)) (Notify 0 (OnNext (JArr [product1])))
        = step ?eff ?st (Dispatch reload)"
    and 2: "run ?eff (step ?eff ?st (Dispatch reload))
              [Notify 0 (OnNext (JArr [product1])), Notify 1 (OnNext (JArr [product2]))]
            = run ?eff (step ?eff ?st (Dispatch reload)) [Notify 1 (OnNext (JArr [product2]))]"
    using product_first_load w product_load_signals(3) s1 by simp_all
  have 3: "emitted (run ?eff subscribed
        [Dispatch loadAll, Dispatch reload,
         Notify 0 (OnNext (JArr [product1])), Notify 1 (OnNext (JArr [product2]))])
      = [create ''[Product] Load Success''
           [''data'' \<mapsto> JArr [product2], ''message'' \<mapsto> JStr ''Data loaded successfully'']]"
    unfolding product_load_signals(1,2)
    by (rule t [THEN conjunct2, THEN conjunct1, THEN mp, THEN conjunct1]) (simp add: c ls)
  have 4: "emitted (run (createLoadEffect4 productLoad) subscribed
        [Dispatch loadAll, Dispatch reload,
         Notify 1 (OnNext (JArr [product2])), Notify 0 (OnNext (JArr [product1]))])
      = [create ''[Product] Load Success'' [''data'' \<mapsto> JArr [product2]]]"
    unfolding product_load_signals(1,2)
    by (rule t4) (simp add: ls)
  have 5: "emitted (run (createLoadEffect productLoad True (Some selectProducts) None) subscribed
        [StoreState appState, Dispatch reload, StoreState appState, Dispatch reload,
         Notify 0 (OnNext (JArr [product1])), Notify 1 (OnNext (JArr [product2]))])
      = [create ''[Product] Load Success''
           [''data'' \<mapsto> JArr [product2], ''message'' \<mapsto> JStr ''Data loaded successfully'']]"
    unfolding product_load_signals(2) using tS by (simp add: c ls)
  note tD = t [THEN conjunct2, THEN conjunct2, THEN conjunct2,
      unfolded Let_def product_load_signals(1,2) [symmetric] c ls]
  from tD hs d l k ls have 6: "js_member (field (reduce_all (createImmerReducer initialAppState hs) appState
               [loadAll, reload,
                create ''[Product] Load Success''
                  [''data'' \<mapsto> JArr [product2], ''message'' \<mapsto> JStr ''Data loaded successfully'']])
             ''products'') ''data'' = Some (JArr [product2])"
    by simp
  from 1 2 3 4 5 6 show ?thesis by (simp add: Let_def hs)
qed




section \<open>Pipelines: failures\<close>

lemma single_failure:
  assumes w: "withLatest eff = None"
    and t: "a ''type'' = Some (JStr (trigger eff))"
    and p: "project eff a Undefined = Some ob"
    and f: "onFail ob e = Some sig"
  shows "run eff subscribed [Dispatch a, Notify 0 (OnError e)] =
          \<lparr>latest = None, calls = [args ob], inner = None, emitted = [sig], console = [],
           failed = False\<rparr>"
  by (simp add: run_Cons run_Nil first_dispatch [OF w t p])
     (simp add: step_def notify_def subscribed_def f)

lemma failure_families:
  assumes "(eff, ftype, dflt) \<in>
     {(createLoadEffect la False sel mc, loadFailure la, configured mc failureMessage ''Load failed''),
      (createAddEffect aa mc, addFailure aa, configured mc failureMessage ''Add failed''),
      (createUpdateEffect ua mc, updateFailure ua, configured mc failureMessage ''Update failed''),
      (createDeleteEffect da mc, deleteFailure da, configured mc failureMessage ''Delete failed''),
      (createLoadEffect4 la, loadFailure la, ''Load failed''),
      (createAddEffect4 aa, addFailure aa, ''Add failed''),
      (createUpdateEffect4 ua, updateFailure ua, ''Update failed''),
      (createDeleteEffect4 da, deleteFailure da, ''Delete failed''),
      (createLoadEffectI la ci, loadFailure la, ''Load failed''),
      (createAddEffectI aa ci, addFailure aa, ''Add failed''),
      (createUpdateEffectI ua ci, updateFailure ua, ''Update failed''),
      (createDeleteEffectI da ci, deleteFailure da, ''Delete failed'')}"
    and "config_message ci errorMessage = None"
  shows "withLatest eff = None"
    and "\<exists>ob. project eff a Undefined = Some ob
           \<and> (\<forall>e m. js_member e ''message'' = Some m \<longrightarrow>
                 onFail ob e = Some (create ftype [''error'' \<mapsto> js_or m (JStr dflt)]))"
  using assms
  by (auto simp: effect_defs Let_def message_or_def failure_message_def resolveMessage_def
      opt_member_def)

lemma improved_family:
  assumes "(eff, ftype, dflt) \<in>
     {(createLoadEffectI la ci, loadFailure la, ''Load failed''),
      (createAddEffectI aa ci, addFailure aa, ''Add failed''),
      (createUpdateEffectI ua ci, updateFailure ua, ''Update failed''),
      (createDeleteEffectI da ci, deleteFailure da, ''Delete failed'')}"
  shows "withLatest eff = None"
    and "\<exists>ob. project eff a v = Some ob
           \<and> (\<forall>e. onFail ob e = Some (create ftype [''error'' \<mapsto> failure_message ci e dflt]))"
  using assms by (auto simp: effect_defs)





lemma failure_signal_carries_message:
  assumes m: "(eff, ftype, dflt) \<in>
     {(createLoadEffect la False sel mc, loadFailure la, configured mc failureMessage ''Load failed''),
      (createAddEffect aa mc, addFailure aa, configured mc failureMessage ''Add failed''),
      (createUpdateEffect ua mc, updateFailure ua, configured mc failureMessage ''Update failed''),
      (createDeleteEffect da mc, deleteFailure da, configured mc failureMessage ''Delete failed''),
      (createLoadEffect4 la, loadFailure la, ''Load failed''),
      (createAddEffect4 aa, addFailure aa, ''Add failed''),
      (createUpdateEffect4 ua, updateFailure ua, ''Update failed''),
      (createDeleteEffect4 da, deleteFailure da, ''Delete failed''),
      (createLoadEffectI la ci, loadFailure la, ''Load failed''),
      (createAddEffectI aa ci, addFailure aa, ''Add failed''),
      (createUpdateEffectI ua ci, updateFailure ua, ''Update failed''),
      (createDeleteEffectI da ci, deleteFailure da, ''Delete failed'')}"
    and c: "config_message ci errorMessage = None"
    and t: "a ''type'' = Some (JStr (trigger eff))"
    and x: "js_member e ''message'' = Some m"
  shows "emitted (run eff subscribed [Dispatch a, Notify 0 (OnError e)])
          = [create ftype [''error'' \<mapsto> js_or m (JStr dflt)]]"
proof -
  from failure_families(2) [OF m c, of a] x obtain ob
    where p: "project eff a Undefined = Some ob"
      and f: "onFail ob e = Some (create ftype [''error'' \<mapsto> js_or m (JStr dflt)])"
    by blast
  from single_failure [OF failure_families(1) [OF m c] t p f]
  show ?thesis by simp
qed







section \<open>Pipelines: the error a failure leaves in the state\<close>

lemma configured_None: "configured None sel d = d"
  by (simp add: configured_def)

lemma failure_error_stored:
  assumes c: "createDefaultReducerHandlers cfg = Some hs" and d: "distinct_types (actions cfg)"
    and k: "(kind, failure, busy) \<in>
            {(''load'', ''loadFailure'', ''isLoading''), (''add'', ''addFailure'', ''isAdding''),
             (''update'', ''updateFailure'', ''isUpdating''),
             (''delete'', ''deleteFailure'', ''isDeleting'')}"
    and ti: "actions cfg kind = Some ti" and tf: "actions cfg failure = Some tf"
  shows "js_member (field (createImmerReducer init hs (Some s) (create tf [''error'' \<mapsto> x]))
           (stateKey cfg)) ''error'' = Some x"
proof -
  note f = default_reduce_failure [OF c d]
  from k have "(kind = ''load'' \<and> failure = ''loadFailure'' \<and> busy = ''isLoading'')
    \<or> (kind = ''add'' \<and> failure = ''addFailure'' \<and> busy = ''isAdding'')
    \<or> (kind = ''update'' \<and> failure = ''updateFailure'' \<and> busy = ''isUpdating'')
    \<or> (kind = ''delete'' \<and> failure = ''deleteFailure'' \<and> busy = ''isDeleting'')"
    by simp
  then show ?thesis
  proof (elim disjE conjE)
    assume "kind = ''load''" "failure = ''loadFailure''" "busy = ''isLoading''"
    with ti tf show ?thesis by (simp add: f(1) [where ti=ti] field_upd)
  next
    assume "kind = ''add''" "failure = ''addFailure''" "busy = ''isAdding''"
    with ti tf show ?thesis by (simp add: f(2) [where ti=ti] field_upd)
  next
    assume "kind = ''update''" "failure = ''updateFailure''" "busy = ''isUpdating''"
    with ti tf show ?thesis by (simp add: f(3) [where ti=ti] field_upd)
  next
    assume "kind = ''delete''" "failure = ''deleteFailure''" "busy = ''isDeleting''"
    with ti tf show ?thesis by (simp add: f(4) [where ti=ti] field_upd)
  qed
qed

lemma improved_null_error:
  assumes m: "(eff, ftype, dflt) \<in>
     {(createLoadEffectI la ci, loadFailure la, ''Load failed''),
      (createAddEffectI aa ci, addFailure aa, ''Add failed''),
      (createUpdateEffectI ua ci, updateFailure ua, ''Update failed''),
      (createDeleteEffectI da ci, deleteFailure da, ''Delete failed'')}"
    and c: "config_message ci errorMessage = None"
    and t: "a ''type'' = Some (JStr (trigger eff))"
    and x: "js_member e ''message'' = None"
  shows "emitted (run eff subscribed [Dispatch a, Notify 0 (OnError e)])
          = [create ftype [''error'' \<mapsto> JStr dflt]]"
proof -
  from improved_family(2) [OF m, of a Undefined] obtain ob
    where p: "project eff a Undefined = Some ob"
      and f: "onFail ob e = Some (create ftype [''error'' \<mapsto> failure_message ci e dflt])"
    by blast
  have "failure_message ci e dflt = JStr dflt"
    using c x by (simp add: failure_message_def resolveMessage_def opt_member_def js_or_def)
  with single_failure [OF improved_family(1) [OF m] t p f]
  show ?thesis by simp
qed

text \<open>
  C10, the cases it does not cover. The error message of ngrx_helper_improved.ts may be
  a function of the error, and \<open>resolveMessage\<close> returns what that function
  returns, without a fallback: with a function that returns the empty string, the
  failure signal carries the empty string, and the reducer stores it, so the state's
  \<open>error\<close> is an empty string after a failure. With nothing configured at all,
  \<open>error.message || 'Load failed'\<close> passes on any truthy \<open>message\<close>: an error
  whose message is the number 42 leaves the number, not a string, in the failure signal.
\<close>

theorem C10_blank_error_counterexample:
  "emitted (run (createLoadEffectI productLoad blankError) subscribed
              [Dispatch loadAll, Notify 0 (OnError rejected)])
     = [create ''[Product] Load Failure'' [''error'' \<mapsto> JStr '''']]
   \<and> (case createDefaultReducerHandlers productConfig of
         None \<Rightarrow> False
       | Some hs \<Rightarrow>
           js_member (field (createImmerReducer initialAppState hs (Some appState)
               (create ''[Product] Load Failure'' [''error'' \<mapsto> JStr '''']))
             ''products'') ''error'' = Some (JStr ''''))
   \<and> emitted (run (createLoadEffect productLoad False None None) subscribed
              [Dispatch loadAll, Notify 0 (OnError (JObj [''message'' \<mapsto> JNum 42]))])
     = [create ''[Product] Load Failure'' [''error'' \<mapsto> JNum 42]]"
proof -
  have 0: "emitted (run (createLoadEffect productLoad False None None) subscribed
              [Dispatch loadAll, Notify 0 (OnError (JObj [''message'' \<mapsto> JNum 42]))])
     = [create ''[Product] Load Failure'' [''error'' \<mapsto> JNum 42]]"
    by (simp add: run_Cons run_Nil step_def dispatch_def flatten_def start_def notify_def
      subscribed_def createLoadEffect_def Let_def loadAll_def create_def field_def productLoad_def
      message_or_def js_or_def configured_def)
  have 1: "emitted (run (createLoadEffectI productLoad blankError) subscribed
              [Dispatch loadAll, Notify 0 (OnError rejected)])
     = [create ''[Product] Load Failure'' [''error'' \<mapsto> JStr '''']]"
    by (simp add: run_Cons run_Nil step_def dispatch_def flatten_def start_def notify_def
      subscribed_def createLoadEffectI_def loadAll_def create_def field_def productLoad_def
      blankError_def rejected_def failure_message_def resolveMessage_def config_message_def)
  have a: "actions productConfig = createCrudActions ''Product''"
    and k: "stateKey productConfig = ''products''"
    by (simp_all add: productConfig_def)
  from default_handlers_crud [OF a]
  obtain hs where hs: "createDefaultReducerHandlers productConfig = Some hs" by auto
  have d: "distinct_types (actions productConfig)" by (simp add: a distinct_crud)
  have m: "(''load'', ''loadFailure'', ''isLoading'') \<in>
            {(''load'', ''loadFailure'', ''isLoading''), (''add'', ''addFailure'', ''isAdding''),
             (''update'', ''updateFailure'', ''isUpdating''),
             (''delete'', ''deleteFailure'', ''isDeleting'')}" by simp
  have "js_member (field (createImmerReducer initialAppState hs (Some appState)
               (create ''[Product] Load Failure'' [''error'' \<mapsto> JStr '''']))
             (stateKey productConfig)) ''error'' = Some (JStr '''')"
    by (rule failure_error_stored [OF hs d m]) (simp_all add: a crud_lookup)
  with 0 1 show ?thesis by (simp add: hs k)
qed


lemma default_not_empty:
  assumes "(eff, ftype, dflt) \<in>
     {(createLoadEffect la False sel None, loadFailure la, ''Load failed''),
      (createAddEffect aa None, addFailure aa, ''Add failed''),
      (createUpdateEffect ua None, updateFailure ua, ''Update failed''),
      (createDeleteEffect da None, deleteFailure da, ''Delete failed''),
      (createLoadEffect4 la, loadFailure la, ''Load failed''),
      (createAddEffect4 aa, addFailure aa, ''Add failed''),
      (createUpdateEffect4 ua, updateFailure ua, ''Update failed''),
      (createDeleteEffect4 da, deleteFailure da, ''Delete failed''),
      (createLoadEffectI la ci, loadFailure la, ''Load failed''),
      (createAddEffectI aa ci, addFailure aa, ''Add failed''),
      (createUpdateEffectI ua ci, updateFailure ua, ''Update failed''),
      (createDeleteEffectI da ci, deleteFailure da, ''Delete failed'')}"
  shows "dflt \<noteq> []"
  using assms by (elim insertE emptyE) simp_all

text \<open>
  C10, amended. With no failure message configured
  (\<open>messageConfig\<close> undefined in \<open>ngrx_helper_enhanced.ts\<close>, no
  \<open>errorMessage\<close> in \<open>ngrx_helper_improved.ts\<close>; \<open>ngrx_generic_state_4.ts\<close>
  has no configuration), a rejection with an error whose \<open>message\<close> can be read
  makes every load, add, update and delete effect emit its failure signal with that
  message when it is truthy, and otherwise with the operation's own default, one of
  \<open>Load failed\<close>, \<open>Add failed\<close>, \<open>Update failed\<close>, \<open>Delete failed\<close>, none
  of them empty. In \<open>ngrx_helper_improved.ts\<close> a \<open>null\<close> or \<open>undefined\<close>
  error gives the default as well. The failure handlers of
  \<open>createDefaultReducerHandlers\<close> store the carried error as the sub-slice's
  \<open>error\<close>.
\<close>

theorem C10_default_failure_message:
  "((eff, ftype, dflt) \<in>
     {(createLoadEffect la False sel None, loadFailure la, ''Load failed''),
      (createAddEffect aa None, addFailure aa, ''Add failed''),
      (createUpdateEffect ua None, updateFailure ua, ''Update failed''),
      (createDeleteEffect da None, deleteFailure da, ''Delete failed''),
      (createLoadEffect4 la, loadFailure la, ''Load failed''),
      (createAddEffect4 aa, addFailure aa, ''Add failed''),
      (createUpdateEffect4 ua, updateFailure ua, ''Update failed''),
      (createDeleteEffect4 da, deleteFailure da, ''Delete failed''),
      (createLoadEffectI la ci, loadFailure la, ''Load failed''),
      (createAddEffectI aa ci, addFailure aa, ''Add failed''),
      (createUpdateEffectI ua ci, updateFailure ua, ''Update failed''),
      (createDeleteEffectI da ci, deleteFailure da, ''Delete failed'')}
     \<and> config_message ci errorMessage = None
     \<and> a ''type'' = Some (JStr (trigger eff))
     \<and> js_member e ''message'' = Some m
    \<longrightarrow> emitted (run eff subscribed [Dispatch a, Notify 0 (OnError e)])
          = [create ftype [''error'' \<mapsto> (if truthy m then m else JStr dflt)]]
       \<and> dflt \<noteq> [])
   \<and> ((eff', ftype', dflt') \<in>
     {(createLoadEffectI la ci', loadFailure la, ''Load failed''),
      (createAddEffectI aa ci', addFailure aa, ''Add failed''),
      (createUpdateEffectI ua ci', updateFailure ua, ''Update failed''),
      (createDeleteEffectI da ci', deleteFailure da, ''Delete failed'')}
     \<and> config_message ci' errorMessage = None
     \<and> a' ''type'' = Some (JStr (trigger eff'))
     \<and> js_member e' ''message'' = None
    \<longrightarrow> emitted (run eff' subscribed [Dispatch a', Notify 0 (OnError e')])
          = [create ftype' [''error'' \<mapsto> JStr dflt']])
   \<and> (createDefaultReducerHandlers cfg = Some hs \<and> distinct_types (actions cfg)
       \<and> (kind, failure, busy) \<in>
            {(''load'', ''loadFailure'', ''isLoading''), (''add'', ''addFailure'', ''isAdding''),
             (''update'', ''updateFailure'', ''isUpdating''),
             (''delete'', ''deleteFailure'', ''isDeleting'')}
       \<and> actions cfg kind = Some ti \<and> actions cfg failure = Some tf
    \<longrightarrow> js_member (field (createImmerReducer init hs (Some s)
                              (create tf [''error'' \<mapsto> x])) (stateKey cfg)) ''error''
          = Some x)"
proof (intro conjI impI)
  assume h: "(eff, ftype, dflt) \<in>
     {(createLoadEffect la False sel None, loadFailure la, ''Load failed''),
      (createAddEffect aa None, addFailure aa, ''Add failed''),
      (createUpdateEffect ua None, updateFailure ua, ''Update failed''),
      (createDeleteEffect da None, deleteFailure da, ''Delete failed''),
      (createLoadEffect4 la, loadFailure la, ''Load failed''),
      (createAddEffect4 aa, addFailure aa, ''Add failed''),
      (createUpdateEffect4 ua, updateFailure ua, ''Update failed''),
      (createDeleteEffect4 da, deleteFailure da, ''Delete failed''),
      (createLoadEffectI la ci, loadFailure la, ''Load failed''),
      (createAddEffectI aa ci, addFailure aa, ''Add failed''),
      (createUpdateEffectI ua ci, updateFailure ua, ''Update failed''),
      (createDeleteEffectI da ci, deleteFailure da, ''Delete failed'')}
     \<and> config_message ci errorMessage = None
     \<and> a ''type'' = Some (JStr (trigger eff))
     \<and> js_member e ''message'' = Some m"
  note m = h [THEN conjunct1]
    and c = h [THEN conjunct2, THEN conjunct1]
    and t = h [THEN conjunct2, THEN conjunct2, THEN conjunct1]
    and x = h [THEN conjunct2, THEN conjunct2, THEN conjunct2]
  have m': "(eff, ftype, dflt) \<in>
     {(createLoadEffect la False sel None, loadFailure la, configured None failureMessage ''Load failed''),
      (createAddEffect aa None, addFailure aa, configured None failureMessage ''Add failed''),
      (createUpdateEffect ua None, updateFailure ua, configured None failureMessage ''Update failed''),
      (createDeleteEffect da None, deleteFailure da, configured None failureMessage ''Delete failed''),
      (createLoadEffect4 la, loadFailure la, ''Load failed''),
      (createAddEffect4 aa, addFailure aa, ''Add failed''),
      (createUpdateEffect4 ua, updateFailure ua, ''Update failed''),
      (createDeleteEffect4 da, deleteFailure da, ''Delete failed''),
      (createLoadEffectI la ci, loadFailure la, ''Load failed''),
      (createAddEffectI aa ci, addFailure aa, ''Add failed''),
      (createUpdateEffectI ua ci, updateFailure ua, ''Update failed''),
      (createDeleteEffectI da ci, deleteFailure da, ''Delete failed'')}"
    unfolding configured_None by (rule m)
  from failure_signal_carries_message [where eff=eff and ftype=ftype and dflt=dflt and la=la
      and sel=sel and mc=None and aa=aa and ua=ua and da=da and ci=ci and a=a and e=e
      and m=m, OF m' c t x]
  show "emitted (run eff subscribed [Dispatch a, Notify 0 (OnError e)])
          = [create ftype [''error'' \<mapsto> (if truthy m then m else JStr dflt)]]"
    by (simp add: js_or_def)
  show "dflt \<noteq> []" by (rule default_not_empty [OF m])
next
  assume h: "(eff', ftype', dflt') \<in>
     {(createLoadEffectI la ci', loadFailure la, ''Load failed''),
      (createAddEffectI aa ci', addFailure aa, ''Add failed''),
      (createUpdateEffectI ua ci', updateFailure ua, ''Update failed''),
      (createDeleteEffectI da ci', deleteFailure da, ''Delete failed'')}
     \<and> config_message ci' errorMessage = None
     \<and> a' ''type'' = Some (JStr (trigger eff'))
     \<and> js_member e' ''message'' = None"
  note m = h [THEN conjunct1]
    and c = h [THEN conjunct2, THEN conjunct1]
    and t = h [THEN conjunct2, THEN conjunct2, THEN conjunct1]
    and x = h [THEN conjunct2, THEN conjunct2, THEN conjunct2]
  show "emitted (run eff' subscribed [Dispatch a', Notify 0 (OnError e')])
          = [create ftype' [''error'' \<mapsto> JStr dflt']]"
    by (rule improved_null_error [where eff=eff' and ftype=ftype' and dflt=dflt' and la=la
      and aa=aa and ua=ua and da=da and ci=ci' and a=a' and e=e', OF m c t x])
next
  assume h: "createDefaultReducerHandlers cfg = Some hs \<and> distinct_types (actions cfg)
       \<and> (kind, failure, busy) \<in>
            {(''load'', ''loadFailure'', ''isLoading''), (''add'', ''addFailure'', ''isAdding''),
             (''update'', ''updateFailure'', ''isUpdating''),
             (''delete'', ''deleteFailure'', ''isDeleting'')}
       \<and> actions cfg kind = Some ti \<and> actions cfg failure = Some tf"
  note c = h [THEN conjunct1]
    and d = h [THEN conjunct2, THEN conjunct1]
    and k = h [THEN conjunct2, THEN conjunct2, THEN conjunct1]
    and ti = h [THEN conjunct2, THEN conjunct2, THEN conjunct2, THEN conjunct1]
    and tf = h [THEN conjunct2, THEN conjunct2, THEN conjunct2, THEN conjunct2]
  show "js_member (field (createImmerReducer init hs (Some s)
                              (create tf [''error'' \<mapsto> x])) (stateKey cfg)) ''error''
          = Some x"
    by (rule failure_error_stored [OF c d k ti tf])
qed

text \<open>
  The add effect on an error without a message, the improved load effect on a
  \<open>null\<close> error, and the reduction of the resulting failure signal.
\<close>

theorem C10_default_failure_message_witness:
  "emitted (run (createAddEffect productAdd None) subscribed
              [Dispatch addPen, Notify 0 (OnError (JObj Map.empty))])
     = [create ''[Product] Add Failure'' [''error'' \<mapsto> JStr ''Add failed'']]
   \<and> emitted (run (createLoadEffectI productLoad None) subscribed
              [Dispatch loadAll, Notify 0 (OnError Null)])
     = [create ''[Product] Load Failure'' [''error'' \<mapsto> JStr ''Load failed'']]
   \<and> (case createDefaultReducerHandlers productConfig of
         None \<Rightarrow> False
       | Some hs \<Rightarrow>
           js_member (field (createImmerReducer initialAppState hs (Some appState)
               (create ''[Product] Add Failure'' [''error'' \<mapsto> JStr ''Add failed'']))
             ''products'') ''error'' = Some (JStr ''Add failed''))"
proof -
  have a: "actions productConfig = createCrudActions ''Product''"
    and k: "stateKey productConfig = ''products''"
    by (simp_all add: productConfig_def)
  from default_handlers_crud [OF a]
  obtain hs where hs: "createDefaultReducerHandlers productConfig = Some hs" by auto
  have af: "addFailure productAdd = ''[Product] Add Failure''"
    and lf: "loadFailure productLoad = ''[Product] Load Failure''"
    by (simp_all add: productAdd_def productLoad_def)
  have ty: "addPen ''type'' = Some (JStr (trigger (createAddEffect productAdd None)))"
    "loadAll ''type'' = Some (JStr (trigger (createLoadEffectI productLoad None)))"
    by (simp_all add: addPen_def loadAll_def create_def createAddEffect_def Let_def
        createLoadEffectI_def productAdd_def productLoad_def)
  note t = C10_default_failure_message [where eff="createAddEffect productAdd None"
      and ftype="addFailure productAdd" and dflt="''Add failed''" and aa=productAdd
      and la=productLoad and ci=None and a=addPen and e="JObj Map.empty" and m=Undefined
      and eff'="createLoadEffectI productLoad None" and ftype'="loadFailure productLoad"
      and dflt'="''Load failed''" and ci'=None and a'=loadAll and e'=Null
      and cfg=productConfig and hs=hs and kind="''add''" and failure="''addFailure''"
      and busy="''isAdding''" and ti="''[Product] Add''" and tf="''[Product] Add Failure''"
      and init=initialAppState and s=appState and x="JStr ''Add failed''"]
  have 1: "emitted (run (createAddEffect productAdd None) subscribed
              [Dispatch addPen, Notify 0 (OnError (JObj Map.empty))])
     = [create (addFailure productAdd)
          [''error'' \<mapsto> (if truthy Undefined then Undefined else JStr ''Add failed'')]]"
    by (rule t [THEN conjunct1, THEN mp, THEN conjunct1])
       (simp add: config_message_def ty field_def)
  have 2: "emitted (run (createLoadEffectI productLoad None) subscribed
              [Dispatch loadAll, Notify 0 (OnError Null)])
     = [create (loadFailure productLoad) [''error'' \<mapsto> JStr ''Load failed'']]"
    by (rule t [THEN conjunct2, THEN conjunct1, THEN mp])
       (simp add: config_message_def ty)
  have 3: "js_member (field (createImmerReducer initialAppState hs (Some appState)
               (create ''[Product] Add Failure'' [''error'' \<mapsto> JStr ''Add failed'']))
             (stateKey productConfig)) ''error'' = Some (JStr ''Add failed'')"
    by (rule t [THEN conjunct2, THEN conjunct2, THEN mp])
       (simp add: hs a crud_lookup distinct_crud)
  from 1 2 3 show ?thesis by (simp add: hs k af lf)
qed

end
